theory Spec2Isabelle
  imports Main
begin

section \<open>The identifier cache of the store (identifiers/cache.ts)\<close>

text \<open>
  A shallow embedding of \<^verbatim>\<open>packages/store/addon/-private/identifiers/cache.ts\<close>.
  Identifier objects live in an explicit store (\<open>heap\<close>): an address stands for the
  JavaScript object, so that "the same object" is equality of addresses, and the one
  mutable field of an identifier (\<open>id\<close>) is updated in the store. The tables of the
  cache (\<open>Object.create(null)\<close> dictionaries with string keys) are maps from strings
  to addresses. Every function takes the cache and returns the cache it leaves behind,
  also when it throws: a JavaScript exception keeps the mutations made before it.
\<close>

subsection \<open>Values, resource data, identifiers\<close>

text \<open>
  The value of a property: \<open>undefined\<close> (for a property of resource data: the key is
  missing), \<open>null\<close>, or a string. Resource data whose key holds \<open>undefined\<close> is read
  like data without the key by every test of the code but one, \<open>newType === type\<close> in
  line 626 for an identifier whose \<open>type\<close> is \<open>undefined\<close>; there the model reads
  the missing key.
\<close>

datatype field = Absent | Null | Str string

type_synonym addr = nat

text \<open>Resource data as the cache reads it: \<open>{ type, id, lid }\<close>, each optional.\<close>

record resource =
  r_type :: field
  r_id :: field
  r_lid :: field

text \<open>The argument of \<open>createIdentifierForNewRecord\<close>: \<open>{ type: T; id?: string | null }\<close>.\<close>

record newRecordData =
  n_type :: string
  n_id :: field

text \<open>
  What a generation method is called with: the resource data, or the data of a new
  record.
\<close>

record genData =
  g_type :: field
  g_id :: field
  g_lid :: field

text \<open>
  A stable record identifier: \<open>{ lid, id, type }\<close>; only \<open>id\<close> is ever reassigned.
  The \<open>type\<close> is a string but for an identifier that a production build has made
  from data without a type: it has the \<open>undefined\<close> or \<open>null\<close> of the data.
\<close>

record token =
  tk_lid :: string
  tk_id :: "string option"
  tk_type :: field

text \<open>
  What a caller passes where an identifier or resource data is expected: an object that
  was made by the cache (by its address), or a plain object with the fields it carries.
\<close>

datatype ref = Token addr | Data resource

text \<open>The exceptions of the file, one constructor for each \<open>throw\<close> and \<open>assert\<close>.\<close>

datatype error =
    NotInStore      \<comment> \<open>The supplied identifier does not belong to this store instance\<close>
  | TypeNeeded      \<comment> \<open>assert: resource.type needs to be a string\<close>
  | LidChanged      \<comment> \<open>You should not change the <lid> of a RecordIdentifier\<close>
  | TypeChanged     \<comment> \<open>You should not change the <type> of a RecordIdentifier\<close>
  | LidNotUnique    \<comment> \<open>The lid generated for the new record is not unique\<close>
  | LidUpdated      \<comment> \<open>The 'lid' for a RecordIdentifier cannot be updated once it has been created\<close>
  | TypeUpdated     \<comment> \<open>The 'type' for a RecordIdentifier cannot be updated once it has been set\<close>
  | TypeError       \<comment> \<open>JavaScript's own error on reading a property of undefined\<close>
  | NoSuchObject    \<comment> \<open>an address that names no object: no JavaScript value is like that\<close>

subsection \<open>The tables\<close>

record keyOptions =
  ko_lid :: "string \<rightharpoonup> addr"
  ko_id :: "string \<rightharpoonup> addr"
  allIdentifiers :: "addr list"

type_synonym generationMethod = "nat \<Rightarrow> genData \<Rightarrow> string"

type_synonym mergeMethod = "addr \<Rightarrow> addr \<Rightarrow> resource \<Rightarrow> addr option"

text \<open>
  The cache object with what its methods can reach. \<open>lids\<close> and \<open>types\<close> are
  \<open>_cache.lids\<close> and \<open>_cache.types\<close>; \<open>generate\<close> and \<open>merge\<close> are the fields
  \<open>_generate\<close> and \<open>_merge\<close>. A generation method is host code and may answer
  differently each time (the default one draws random keys): it receives the number of
  earlier calls, counted in \<open>generated\<close>. A merge method returns an identifier or, as
  the default callback does, \<open>undefined\<close> (\<open>None\<close>). The update and forget methods
  return nothing; their calls are recorded in \<open>updateLog\<close> and \<open>forgetLog\<close>, the calls
  of the merge method in \<open>mergeLog\<close>, and the warnings of \<open>warn\<close> in \<open>warnLog\<close>.
  \<open>marked\<close> is the set of objects that \<open>isStableIdentifier\<close> accepts.
\<close>

record cache =
  lids :: "string \<rightharpoonup> addr"
  types :: "string \<rightharpoonup> keyOptions"
  generate :: generationMethod
  merge :: mergeMethod
  heap :: "addr \<rightharpoonup> token"
  nextAddr :: addr
  marked :: "addr set"
  generated :: nat
  updateLog :: "(addr \<times> resource) list"
  forgetLog :: "addr list"
  mergeLog :: "(addr \<times> addr \<times> resource) list"
  warnLog :: "(addr \<times> string option) list"

text \<open>
  What the file imports and this development takes as given: the build flag \<open>DEBUG\<close>
  of \<^verbatim>\<open>@glimmer/env\<close>, which decides every \<open>if (DEBUG)\<close> of the file and
  whether \<open>assert\<close> of \<^verbatim>\<open>@ember/debug\<close> is there (it throws in a DEBUG build
  and is removed from a production build); \<open>normalizeModelName\<close>, declared on
  strings; \<open>normalizeNonString\<close>, the text that the template of line 83 shows for
  \<open>normalizeModelName(type)\<close> when a production build calls it with a \<open>type\<close> that
  is \<open>undefined\<close> or \<open>null\<close>; and \<open>uuidv4\<close> (the \<open>n\<close>-th random key).
\<close>

record env =
  DEBUG :: bool
  normalizeModelName :: "string \<Rightarrow> string"
  normalizeNonString :: "field \<Rightarrow> string"
  uuidv4 :: "nat \<Rightarrow> string"

subsection \<open>Imported helpers\<close>

text \<open>
  Modelled from the spec: \<^verbatim>\<open>system/coerce-id.ts\<close> is not among the sources. The spec
  speaks of coercing the caller-supplied key and of keys that are absent; the cache
  compares the result with \<open>null\<close> and tests it with \<open>isNonEmptyString\<close>. A missing,
  \<open>null\<close> or empty value is \<open>null\<close> (\<open>None\<close>); a string is itself.
\<close>

definition coerceId :: "field \<Rightarrow> string option" where
  "coerceId v = (case v of Absent \<Rightarrow> None | Null \<Rightarrow> None
                 | Str s \<Rightarrow> (if s = [] then None else Some s))"

text \<open>
  Modelled from the spec: \<^verbatim>\<open>utils/is-non-empty-string.ts\<close> is not among the sources;
  the spec's "non-empty string".
\<close>

definition isNonEmptyString :: "field \<Rightarrow> bool" where
  "isNonEmptyString v = (case v of Str s \<Rightarrow> s \<noteq> [] | _ \<Rightarrow> False)"

text \<open>JavaScript's \<open>'key' in object\<close> and the truth value of a property.\<close>

definition hasKey :: "field \<Rightarrow> bool" where
  "hasKey v = (v \<noteq> Absent)"

definition truthy :: "field \<Rightarrow> bool" where
  "truthy v = (case v of Str s \<Rightarrow> s \<noteq> [] | _ \<Rightarrow> False)"

text \<open>
  Modelled from the spec: \<^verbatim>\<open>identifiers/is-stable-identifier.ts\<close> is not among the
  sources. The spec's "marks the token object itself as no longer a live stable
  identity": a set of marked objects, tested, extended and reduced.
\<close>

definition isStableIdentifier :: "cache \<Rightarrow> ref \<Rightarrow> bool" where
  "isStableIdentifier c rf = (case rf of Token a \<Rightarrow> a \<in> marked c | Data _ \<Rightarrow> False)"

definition markStableIdentifier :: "addr \<Rightarrow> cache \<Rightarrow> cache" where
  "markStableIdentifier a c = c\<lparr>marked := insert a (marked c)\<rparr>"

definition unmarkStableIdentifier :: "ref \<Rightarrow> cache \<Rightarrow> cache" where
  "unmarkStableIdentifier rf c =
     (case rf of Token a \<Rightarrow> c\<lparr>marked := marked c - {a}\<rparr> | Data _ \<Rightarrow> c)"

text \<open>
  The fields that the code reads from its argument when the argument is not a marked
  identifier: those of the plain object, or those of an identifier object that has
  lost its mark.
\<close>

definition fieldOfId :: "string option \<Rightarrow> field" where
  "fieldOfId v = (case v of None \<Rightarrow> Null | Some s \<Rightarrow> Str s)"

definition refFields :: "cache \<Rightarrow> ref \<Rightarrow> resource option" where
  "refFields c rf =
     (case rf of
        Data d \<Rightarrow> Some d
      | Token a \<Rightarrow>
          (case heap c a of
             None \<Rightarrow> None
           | Some t \<Rightarrow> Some \<lparr>r_type = tk_type t, r_id = fieldOfId (tk_id t),
                              r_lid = Str (tk_lid t)\<rparr>))"

subsection \<open>Generation and the default callbacks\<close>

definition lidPrefix :: string where
  "lidPrefix = ''@ember-data:lid-''"

definition normalizedText :: "env \<Rightarrow> field \<Rightarrow> string" where
  "normalizedText env v =
     (case v of Str s \<Rightarrow> normalizeModelName env s | _ \<Rightarrow> normalizeNonString env v)"

definition defaultGenerationMethod :: "env \<Rightarrow> generationMethod" where
  "defaultGenerationMethod env n data =
     (if hasKey (g_lid data) \<and> isNonEmptyString (g_lid data)
      then (case g_lid data of Str l \<Rightarrow> l | _ \<Rightarrow> [])
      else if hasKey (g_id data) \<and> isNonEmptyString (fieldOfId (coerceId (g_id data)))
      then lidPrefix @ normalizedText env (g_type data) @ ''-''
             @ (case g_id data of Str i \<Rightarrow> i | _ \<Rightarrow> [])
      else uuidv4 env n)"

definition defaultEmptyCallback :: mergeMethod where
  "defaultEmptyCallback identifier existingIdentifier data = None"

text \<open>
  The constructor: empty tables; the configured generation method or the default one;
  the merge method is the empty callback.
\<close>

definition emptyLogs :: "generationMethod \<Rightarrow> cache" where
  "emptyLogs g =
     \<lparr>lids = Map.empty, types = Map.empty, generate = g, merge = defaultEmptyCallback,
      heap = Map.empty, nextAddr = 0, marked = {}, generated = 0,
      updateLog = [], forgetLog = [], mergeLog = [], warnLog = []\<rparr>"

definition newIdentifierCache :: "env \<Rightarrow> generationMethod option \<Rightarrow> cache" where
  "newIdentifierCache env configuredGenerationMethod =
     emptyLogs (case configuredGenerationMethod of
                  None \<Rightarrow> defaultGenerationMethod env | Some g \<Rightarrow> g)"

definition configureMerge :: "mergeMethod option \<Rightarrow> cache \<Rightarrow> cache" where
  "configureMerge method c =
     c\<lparr>merge := (case method of None \<Rightarrow> defaultEmptyCallback | Some m \<Rightarrow> m)\<rparr>"

subsection \<open>Type indices and identifier objects\<close>

definition emptyIndex :: keyOptions where
  "emptyIndex = \<lparr>ko_lid = Map.empty, ko_id = Map.empty, allIdentifiers = []\<rparr>"

text \<open>
  \<open>getTypeIndex\<close> returns the index object of a type and stores an empty one first when
  there is none. The object is shared with the table, so the model names it by its
  key: \<open>getTypeIndex\<close> is the cache with the index in place, \<open>typeIndex\<close> reads it and
  \<open>setTypeIndex\<close> writes it back. The key of \<open>typeMap[type]\<close> is a string: the type
  itself, or \<open>undefined\<close> and \<open>null\<close> spelled out (\<open>typeKey\<close>).
\<close>

definition typeKey :: "field \<Rightarrow> string" where
  "typeKey v = (case v of Absent \<Rightarrow> ''undefined'' | Null \<Rightarrow> ''null'' | Str s \<Rightarrow> s)"

definition getTypeIndex :: "string \<Rightarrow> cache \<Rightarrow> cache" where
  "getTypeIndex type c =
     (case types c type of
        None \<Rightarrow> c\<lparr>types := (types c)(type \<mapsto> emptyIndex)\<rparr>
      | Some typeIndex \<Rightarrow> c)"

definition typeIndex :: "cache \<Rightarrow> string \<Rightarrow> keyOptions" where
  "typeIndex c type = (case types c type of None \<Rightarrow> emptyIndex | Some k \<Rightarrow> k)"

definition setTypeIndex :: "string \<Rightarrow> keyOptions \<Rightarrow> cache \<Rightarrow> cache" where
  "setTypeIndex type k c = c\<lparr>types := (types c)(type \<mapsto> k)\<rparr>"

definition fromMap :: "(string \<rightharpoonup> addr) \<Rightarrow> string \<Rightarrow> addr option" where
  "fromMap m key = m key"

text \<open>
  \<open>makeStableRecordIdentifier\<close>: a new object, marked. (In a DEBUG build the object
  handed out is a frozen wrapper around the record; the wrapper reads the record's
  fields and is the only one of the two that leaves the cache, so one object stands
  for both.)
\<close>

definition makeStableRecordIdentifier ::
  "string option \<Rightarrow> field \<Rightarrow> string \<Rightarrow> cache \<Rightarrow> addr \<times> cache" where
  "makeStableRecordIdentifier idv type lid c =
     (let a = nextAddr c;
          c1 = c\<lparr>heap := (heap c)(a \<mapsto> \<lparr>tk_lid = lid, tk_id = idv, tk_type = type\<rparr>),
                 nextAddr := Suc a\<rparr>
      in (a, markStableIdentifier a c1))"

subsection \<open>Resolution: \<open>_getRecordIdentifier\<close>\<close>

text \<open>
  Lines 244 to 282, the branch \<open>shouldGenerate === true\<close> after the lookups have
  missed: \<open>found\<close> is what the lookup by the generated key gave. A new identifier is
  made, checked against the global table in a DEBUG build, and entered in the global
  table, the type's \<open>lid\<close> table and the type's list; then the identifier is entered
  in the type's \<open>id\<close> table under its own \<open>id\<close>, when it has one.
\<close>

definition populate ::
  "env \<Rightarrow> field \<Rightarrow> string option \<Rightarrow> string \<Rightarrow> addr option \<Rightarrow> cache
     \<Rightarrow> (error + addr option) \<times> cache" where
  "populate env type idv newLid found c =
     (case (case found of
              Some identifier \<Rightarrow> (Inr identifier, c)
            | None \<Rightarrow>
                (let (identifier, c1) = makeStableRecordIdentifier idv type newLid c
                 in if DEBUG env \<and> newLid \<in> dom (lids c1) then (Inl TypeChanged, c1)
                    else
                      (let c2 = c1\<lparr>lids := (lids c1)(newLid \<mapsto> identifier)\<rparr>;
                           k = typeIndex c2 (typeKey type);
                           c3 = setTypeIndex (typeKey type)
                                  (k\<lparr>ko_lid := (ko_lid k)(newLid \<mapsto> identifier),
                                     allIdentifiers := allIdentifiers k @ [identifier]\<rparr>) c2
                       in (Inr identifier, c3)))) of
        (Inl e, c') \<Rightarrow> (Inl e, c')
      | (Inr identifier, c') \<Rightarrow>
          (case heap c' identifier of
             None \<Rightarrow> (Inl NoSuchObject, c')
           | Some t \<Rightarrow>
               (case tk_id t of
                  None \<Rightarrow> (Inr (Some identifier), c')
                | Some i \<Rightarrow>
                    (let k = typeIndex c' (typeKey type)
                     in (Inr (Some identifier),
                         setTypeIndex (typeKey type)
                           (k\<lparr>ko_id := (ko_id k)(i \<mapsto> identifier)\<rparr>) c')))))"

text \<open>
  The value of \<open>v && normalizeModelName(v)\<close>: a value that is falsy (\<open>undefined\<close>,
  \<open>null\<close>, the empty string) is itself, a name is normalized.
\<close>

definition normalized :: "env \<Rightarrow> field \<Rightarrow> field" where
  "normalized env v =
     (case v of Str s \<Rightarrow> (if s = [] then Str [] else Str (normalizeModelName env s)) | _ \<Rightarrow> v)"

text \<open>
  Lines 193 to 285, for an argument that is not a marked identifier. The \<open>assert\<close> of
  line 208 throws in a DEBUG build when \<open>type\<close> is missing or no non-empty string;
  a production build has no such check and goes on with the \<open>type\<close> as it is. The
  generation method is called once the lookups in the global table and in the type's
  two tables have missed; its call is counted.
\<close>

definition resolveResource ::
  "env \<Rightarrow> resource \<Rightarrow> bool \<Rightarrow> cache \<Rightarrow> (error + addr option) \<times> cache" where
  "resolveResource env resource shouldGenerate c =
     (let lid = coerceId (r_lid resource) in
      case (case lid of None \<Rightarrow> None | Some l \<Rightarrow> fromMap (lids c) l) of
        Some identifier \<Rightarrow> (Inr (Some identifier), c)
      | None \<Rightarrow>
          if \<not> shouldGenerate \<and>
             (\<not> hasKey (r_type resource) \<or> \<not> hasKey (r_id resource) \<or>
              \<not> truthy (r_type resource) \<or> \<not> truthy (r_id resource))
          then (Inr None, c)
          else if DEBUG env \<and> \<not> (hasKey (r_type resource) \<and> isNonEmptyString (r_type resource))
          then (Inl TypeNeeded, c)
          else
            (let type = normalized env (r_type resource);
                 idv = coerceId (r_id resource);
                 c1 = getTypeIndex (typeKey type) c;
                 keyOptions = typeIndex c1 (typeKey type);
                 byLid = (case lid of None \<Rightarrow> None | Some l \<Rightarrow> ko_lid keyOptions l);
                 byId = (case byLid of
                           Some identifier \<Rightarrow> Some identifier
                         | None \<Rightarrow> (case idv of None \<Rightarrow> None | Some i \<Rightarrow> ko_id keyOptions i))
             in case byId of
                  Some identifier \<Rightarrow> (Inr (Some identifier), c1)
                | None \<Rightarrow>
                    (let newLid = generate c1 (generated c1)
                                    \<lparr>g_type = r_type resource, g_id = r_id resource,
                                     g_lid = r_lid resource\<rparr>;
                         c2 = c1\<lparr>generated := Suc (generated c1)\<rparr>
                     in if lid \<noteq> None \<and> Some newLid \<noteq> lid then (Inl LidChanged, c2)
                        else
                          (let found = (if lid = None then ko_lid keyOptions newLid else None)
                           in if shouldGenerate then populate env type idv newLid found c2
                              else (Inr found, c2)))))"

text \<open>
  \<open>_getRecordIdentifier\<close>: a marked identifier is returned as it is; a DEBUG build
  first checks that the global table holds this very object under its \<open>lid\<close>.
\<close>

definition getRecordIdentifier ::
  "env \<Rightarrow> ref \<Rightarrow> bool \<Rightarrow> cache \<Rightarrow> (error + addr option) \<times> cache" where
  "getRecordIdentifier env rf shouldGenerate c =
     (if isStableIdentifier c rf
      then (case rf of
              Data d \<Rightarrow> (Inl NoSuchObject, c)
            | Token a \<Rightarrow>
                (case heap c a of
                   None \<Rightarrow> (Inl NoSuchObject, c)
                 | Some t \<Rightarrow>
                     if DEBUG env \<and> lids c (tk_lid t) \<noteq> Some a then (Inl NotInStore, c)
                     else (Inr (Some a), c)))
      else (case refFields c rf of
              None \<Rightarrow> (Inl NoSuchObject, c)
            | Some resource \<Rightarrow> resolveResource env resource shouldGenerate c))"

definition peekRecordIdentifier :: "env \<Rightarrow> ref \<Rightarrow> cache \<Rightarrow> (error + addr option) \<times> cache" where
  "peekRecordIdentifier env rf c = getRecordIdentifier env rf False c"

definition getOrCreateRecordIdentifier ::
  "env \<Rightarrow> ref \<Rightarrow> cache \<Rightarrow> (error + addr option) \<times> cache" where
  "getOrCreateRecordIdentifier env rf c = getRecordIdentifier env rf True c"

subsection \<open>New records\<close>

definition createIdentifierForNewRecord ::
  "env \<Rightarrow> newRecordData \<Rightarrow> cache \<Rightarrow> (error + addr) \<times> cache" where
  "createIdentifierForNewRecord env data c =
     (let newLid = generate c (generated c)
                     \<lparr>g_type = Str (n_type data), g_id = n_id data, g_lid = Absent\<rparr>;
          c0 = c\<lparr>generated := Suc (generated c)\<rparr>;
          (identifier, c1) =
             makeStableRecordIdentifier (if truthy (n_id data) then coerceId (n_id data) else None)
               (Str (n_type data)) newLid c0;
          c2 = getTypeIndex (n_type data) c1
      in if DEBUG env \<and> newLid \<in> dom (lids c2) then (Inl LidNotUnique, c2)
         else
           (let c3 = c2\<lparr>lids := (lids c2)(newLid \<mapsto> identifier)\<rparr>;
                k = typeIndex c3 (n_type data);
                c4 = setTypeIndex (n_type data)
                       (k\<lparr>ko_lid := (ko_lid k)(newLid \<mapsto> identifier),
                          allIdentifiers := allIdentifiers k @ [identifier]\<rparr>) c3
            in (Inr identifier, c4)))"

subsection \<open>Forgetting\<close>

text \<open>
  \<open>Array.prototype.indexOf\<close> and \<open>splice(index, 1)\<close>. \<open>indexOf\<close> answers \<open>-1\<close>
  (\<open>None\<close>) for an element that is not there, and \<open>splice(-1, 1)\<close> removes the last
  element of the array.
\<close>

fun indexOf :: "'a list \<Rightarrow> 'a \<Rightarrow> nat option" where
  "indexOf [] x = None"
| "indexOf (y # ys) x =
     (if y = x then Some 0 else (case indexOf ys x of None \<Rightarrow> None | Some i \<Rightarrow> Some (Suc i)))"

definition splice1 :: "'a list \<Rightarrow> nat option \<Rightarrow> 'a list" where
  "splice1 xs index =
     (case index of None \<Rightarrow> butlast xs | Some i \<Rightarrow> take i xs @ drop (Suc i) xs)"

text \<open>
  Lines 471 to 482 of \<open>forgetRecordIdentifier\<close>, for the identifier that its argument
  resolved to. The mark is taken from the object that was passed in, the forget
  method is called with the identifier.
\<close>

definition forgetResolved :: "ref \<Rightarrow> addr \<Rightarrow> cache \<Rightarrow> (error + unit) \<times> cache" where
  "forgetResolved identifierObject identifier c =
     (case heap c identifier of
        None \<Rightarrow> (Inl NoSuchObject, c)
      | Some t \<Rightarrow>
          (let c1 = getTypeIndex (typeKey (tk_type t)) c;
               k = typeIndex c1 (typeKey (tk_type t));
               k1 = (case tk_id t of None \<Rightarrow> k | Some i \<Rightarrow> k\<lparr>ko_id := (ko_id k)(i := None)\<rparr>);
               k2 = k1\<lparr>ko_lid := (ko_lid k1)((tk_lid t) := None)\<rparr>;
               k3 = k2\<lparr>allIdentifiers :=
                         splice1 (allIdentifiers k2) (indexOf (allIdentifiers k2) identifier)\<rparr>;
               c2 = setTypeIndex (typeKey (tk_type t)) k3
                      (c1\<lparr>lids := (lids c1)((tk_lid t) := None)\<rparr>);
               c3 = unmarkStableIdentifier identifierObject c2
           in (Inr (), c3\<lparr>forgetLog := forgetLog c3 @ [identifier]\<rparr>)))"

definition forgetRecordIdentifier :: "env \<Rightarrow> ref \<Rightarrow> cache \<Rightarrow> (error + unit) \<times> cache" where
  "forgetRecordIdentifier env identifierObject c =
     (case getOrCreateRecordIdentifier env identifierObject c of
        (Inl e, c1) \<Rightarrow> (Inl e, c1)
      | (Inr None, c1) \<Rightarrow> (Inl TypeError, c1)
      | (Inr (Some identifier), c1) \<Rightarrow> forgetResolved identifierObject identifier c1)"

subsection \<open>Update and merge\<close>

text \<open>
  The value of \<open>'type' in data && data.type && normalizeModelName(data.type)\<close>:
  \<open>false\<close> (\<open>None\<close>) for data without the key, and else \<open>null\<close>, the empty string
  or the normalized name; and whether such a value is truthy.
\<close>

definition newTypeOf :: "env \<Rightarrow> resource \<Rightarrow> field option" where
  "newTypeOf env data =
     (if hasKey (r_type data) then Some (normalized env (r_type data)) else None)"

definition isTruthy :: "field option \<Rightarrow> bool" where
  "isTruthy w = (case w of None \<Rightarrow> False | Some v \<Rightarrow> truthy v)"

definition detectMerge ::
  "env \<Rightarrow> addr \<Rightarrow> resource \<Rightarrow> string option \<Rightarrow> cache \<Rightarrow> (error + addr option) \<times> cache" where
  "detectMerge env identifier data newId c =
     (case heap c identifier of
        None \<Rightarrow> (Inl NoSuchObject, c)
      | Some t \<Rightarrow>
          if tk_id t \<noteq> None \<and> tk_id t \<noteq> newId \<and> newId \<noteq> None
          then (let c1 = getTypeIndex (typeKey (tk_type t)) c
                in (Inr (ko_id (typeIndex c1 (typeKey (tk_type t))) (the newId)), c1))
          else
            (let newType = newTypeOf env data
             in if tk_id t \<noteq> None \<and> tk_id t = newId \<and> newType = Some (tk_type t) \<and>
                   truthy (r_lid data) \<and> r_lid data \<noteq> Str (tk_lid t)
                then (Inr (fromMap (lids c) (case r_lid data of Str l \<Rightarrow> l | _ \<Rightarrow> [])), c)
                else if tk_id t \<noteq> None \<and> tk_id t = newId \<and>
                        isTruthy newType \<and> newType \<noteq> Some (tk_type t) \<and>
                        truthy (r_lid data) \<and> r_lid data = Str (tk_lid t)
                then (let c1 = getTypeIndex (typeKey (the newType)) c
                      in (Inr (ko_id (typeIndex c1 (typeKey (the newType))) (the (tk_id t))), c1))
                else (Inr None, c)))"

text \<open>
  \<open>performRecordIdentifierUpdate\<close>. The checks and the warning belong to a DEBUG
  build; the update method is called in both; the assignment of \<open>id\<close> at the end is
  made whenever the data has an \<open>id\<close> that is not \<open>undefined\<close>.
\<close>

definition performRecordIdentifierUpdate ::
  "env \<Rightarrow> addr \<Rightarrow> resource \<Rightarrow> cache \<Rightarrow> (error + unit) \<times> cache" where
  "performRecordIdentifierUpdate env identifier data c =
     (case heap c identifier of
        None \<Rightarrow> (Inl NoSuchObject, c)
      | Some t \<Rightarrow>
          if DEBUG env \<and> r_lid data \<noteq> Absent \<and> coerceId (r_lid data) \<noteq> Some (tk_lid t)
          then (Inl LidUpdated, c)
          else
            (let c1 = (if DEBUG env \<and> r_id data \<noteq> Absent \<and> tk_id t \<noteq> None \<and>
                          tk_id t \<noteq> coerceId (r_id data)
                       then c\<lparr>warnLog := warnLog c @ [(identifier, coerceId (r_id data))]\<rparr>
                       else c)
             in if DEBUG env \<and> isTruthy (newTypeOf env data) \<and>
                   newTypeOf env data \<noteq> Some (tk_type t)
                then (Inl TypeUpdated, c1)
                else
                  (let c2 = c1\<lparr>updateLog := updateLog c1 @ [(identifier, data)]\<rparr>
                   in if hasKey (r_id data)
                      then (Inr (), c2\<lparr>heap := (heap c2)(identifier \<mapsto> t\<lparr>tk_id := coerceId (r_id data)\<rparr>)\<rparr>)
                      else (Inr (), c2))))"

text \<open>
  A property key is a string: \<open>keyOptions.id[newId]\<close> with \<open>newId\<close> being \<open>null\<close>
  (the parameter is declared a string and receives \<open>newId as string\<close>) is the key
  \<open>null\<close>.
\<close>

definition propertyKey :: "string option \<Rightarrow> string" where
  "propertyKey v = (case v of None \<Rightarrow> ''null'' | Some s \<Rightarrow> s)"

text \<open>
  Lines 445 to 454 of \<open>_mergeRecordIdentifiers\<close>, after the abandoned identifier has
  been forgotten: the identifier that is kept is entered under the new id in the \<open>id\<close>
  table of the type \<open>type\<close> and in that of the matched identifier's type, and the data
  object gets its \<open>lid\<close>. Storing \<open>undefined\<close> under a key of an \<open>id\<close> table leaves
  the key with no identifier, as every reader of these tables compares with
  \<open>undefined\<close>.
\<close>

definition keepIdentifier ::
  "string \<Rightarrow> addr \<Rightarrow> resource \<Rightarrow> string option \<Rightarrow> addr option \<Rightarrow> cache
     \<Rightarrow> (error + addr) \<times> resource \<times> cache" where
  "keepIdentifier type existingIdentifier data newId kept c2 =
     (let k = typeIndex c2 type;
          c3 = setTypeIndex type (k\<lparr>ko_id := (ko_id k)(propertyKey newId := kept)\<rparr>) c2
      in case heap c3 existingIdentifier of
           None \<Rightarrow> (Inl NoSuchObject, data, c3)
         | Some te \<Rightarrow>
             (let c4 = getTypeIndex (typeKey (tk_type te)) c3;
                  b = typeIndex c4 (typeKey (tk_type te));
                  c5 = setTypeIndex (typeKey (tk_type te))
                         (b\<lparr>ko_id := (ko_id b)(propertyKey newId := kept)\<rparr>) c4
              in case kept of
                   None \<Rightarrow> (Inl TypeError, data, c5)
                 | Some kp \<Rightarrow>
                     (case heap c5 kp of
                        None \<Rightarrow> (Inl NoSuchObject, data, c5)
                      | Some tkp \<Rightarrow> (Inr kp, data\<lparr>r_lid := Str (tk_lid tkp)\<rparr>, c5))))"

text \<open>
  \<open>_mergeRecordIdentifiers\<close>; \<open>keyOptions\<close> is the index of the type \<open>type\<close>. The
  merge method decides which identifier is kept; the other one is forgotten through
  \<open>forgetRecordIdentifier\<close>.
\<close>

definition mergeRecordIdentifiers ::
  "env \<Rightarrow> string \<Rightarrow> addr \<Rightarrow> addr \<Rightarrow> resource \<Rightarrow> string option \<Rightarrow> cache
     \<Rightarrow> (error + addr) \<times> resource \<times> cache" where
  "mergeRecordIdentifiers env type identifier existingIdentifier data newId c =
     (let kept = merge c identifier existingIdentifier data;
          c1 = c\<lparr>mergeLog := mergeLog c @ [(identifier, existingIdentifier, data)]\<rparr>;
          abandoned = (if kept = Some identifier then existingIdentifier else identifier)
      in case forgetRecordIdentifier env (Token abandoned) c1 of
           (Inl e, c2) \<Rightarrow> (Inl e, data, c2)
         | (Inr u, c2) \<Rightarrow> keepIdentifier type existingIdentifier data newId kept c2)"

text \<open>
  Lines 410 to 424 of \<open>updateRecordIdentifier\<close>: the update of the identifier that is
  left after the merge, and of the \<open>id\<close> table of its type.
\<close>

definition updateResolved ::
  "env \<Rightarrow> addr \<Rightarrow> resource \<Rightarrow> cache \<Rightarrow> (error + addr) \<times> resource \<times> cache" where
  "updateResolved env identifier data c =
     (case heap c identifier of
        None \<Rightarrow> (Inl NoSuchObject, data, c)
      | Some t0 \<Rightarrow>
          (case performRecordIdentifierUpdate env identifier data c of
             (Inl e, c1) \<Rightarrow> (Inl e, data, c1)
           | (Inr u, c1) \<Rightarrow>
               (case heap c1 identifier of
                  None \<Rightarrow> (Inl NoSuchObject, data, c1)
                | Some t1 \<Rightarrow>
                    if tk_id t0 \<noteq> tk_id t1 \<and> tk_id t1 \<noteq> None
                    then (let c2 = getTypeIndex (typeKey (tk_type t1)) c1;
                              k = typeIndex c2 (typeKey (tk_type t1));
                              k1 = k\<lparr>ko_id := (ko_id k)(the (tk_id t1) \<mapsto> identifier)\<rparr>;
                              k2 = (case tk_id t0 of
                                      None \<Rightarrow> k1
                                    | Some i \<Rightarrow> k1\<lparr>ko_id := (ko_id k1)(i := None)\<rparr>)
                          in (Inr identifier, data, setTypeIndex (typeKey (tk_type t1)) k2 c2))
                    else (Inr identifier, data, c1))))"

text \<open>
  Lines 394 to 408 of \<open>updateRecordIdentifier\<close>, with what \<open>detectMerge\<close> answered:
  when it found nothing and the data has a type other than the identifier's, an
  identifier is resolved (made, if need be) for the data without its \<open>lid\<close>; an
  identifier found in either way is merged with the one that is updated.
\<close>

definition mergeDetected ::
  "env \<Rightarrow> addr \<Rightarrow> resource \<Rightarrow> string option \<Rightarrow> addr option \<Rightarrow> cache
     \<Rightarrow> (error + addr) \<times> resource \<times> cache" where
  "mergeDetected env identifier data newId detected c2 =
     (case heap c2 identifier of
        None \<Rightarrow> (Inl NoSuchObject, data, c2)
      | Some t \<Rightarrow>
          (case (if detected = None \<and> hasKey (r_type data) \<and> truthy (r_type data) \<and>
                    Some (tk_type t) \<noteq> newTypeOf env data
                 then getOrCreateRecordIdentifier env (Data (data\<lparr>r_lid := Absent\<rparr>)) c2
                 else (Inr detected, c2)) of
             (Inl e, c3) \<Rightarrow> (Inl e, data, c3)
           | (Inr None, c3) \<Rightarrow> (Inr identifier, data, c3)
           | (Inr (Some existingIdentifier), c3) \<Rightarrow>
               mergeRecordIdentifiers env (typeKey (tk_type t)) identifier existingIdentifier
                 data newId (getTypeIndex (typeKey (tk_type t)) c3)))"

definition updateRecordIdentifier ::
  "env \<Rightarrow> ref \<Rightarrow> resource \<Rightarrow> cache \<Rightarrow> (error + addr) \<times> resource \<times> cache" where
  "updateRecordIdentifier env identifierObject data c =
     (case getOrCreateRecordIdentifier env identifierObject c of
        (Inl e, c1) \<Rightarrow> (Inl e, data, c1)
      | (Inr None, c1) \<Rightarrow> (Inl TypeError, data, c1)
      | (Inr (Some identifier), c1) \<Rightarrow>
          (let newId = (if hasKey (r_id data) then coerceId (r_id data) else None)
           in case detectMerge env identifier data newId c1 of
                (Inl e, c2) \<Rightarrow> (Inl e, data, c2)
              | (Inr detected, c2) \<Rightarrow>
                  (case mergeDetected env identifier data newId detected c2 of
                     (Inl e, data', c4) \<Rightarrow> (Inl e, data', c4)
                   | (Inr kept, data', c4) \<Rightarrow> updateResolved env kept data' c4)))"

subsection \<open>Sequences of calls\<close>

text \<open>
  The public operations as values, and a host that makes a sequence of calls on one
  cache, going on after a call that threw.
\<close>

datatype operation =
    GetOrCreate ref
  | Peek ref
  | CreateNew newRecordData
  | Update ref resource
  | Forget ref

fun step :: "env \<Rightarrow> operation \<Rightarrow> cache \<Rightarrow> cache" where
  "step env (GetOrCreate rf) c = snd (getOrCreateRecordIdentifier env rf c)"
| "step env (Peek rf) c = snd (peekRecordIdentifier env rf c)"
| "step env (CreateNew data) c = snd (createIdentifierForNewRecord env data c)"
| "step env (Update rf data) c = snd (snd (updateRecordIdentifier env rf data c))"
| "step env (Forget rf) c = snd (forgetRecordIdentifier env rf c)"

fun run :: "env \<Rightarrow> operation list \<Rightarrow> cache \<Rightarrow> cache" where
  "run env [] c = c"
| "run env (x # xs) c = run env xs (step env x c)"

fun isUpdate :: "operation \<Rightarrow> bool" where
  "isUpdate (Update rf data) = True"
| "isUpdate x = False"

subsection \<open>Properties of the tables\<close>

text \<open>
  Every object has an address below the next one to be given out; an entry of a type's
  \<open>lid\<close> table leads to an identifier with that \<open>lid\<close> whose type is the key of
  the index (\<open>lidTablesTyped\<close>), or is the type that the index is named by
  (\<open>lidTablesNamed\<close>); an entry of the global table leads to an identifier with that
  \<open>lid\<close>; and the agreement of the two kinds of table: what a type's \<open>lid\<close> table
  holds under a key, the global table holds under the same key.
\<close>

definition allocated :: "cache \<Rightarrow> bool" where
  "allocated c \<longleftrightarrow> (\<forall>a. a \<in> dom (heap c) \<longrightarrow> a < nextAddr c)"

definition lidTablesTyped :: "cache \<Rightarrow> bool" where
  "lidTablesTyped c \<longleftrightarrow>
     (\<forall>T L a. ko_lid (typeIndex c T) L = Some a \<longrightarrow>
        (\<exists>t. heap c a = Some t \<and> tk_lid t = L \<and> typeKey (tk_type t) = T))"

definition lidTablesNamed :: "cache \<Rightarrow> bool" where
  "lidTablesNamed c \<longleftrightarrow>
     (\<forall>T L a. ko_lid (typeIndex c T) L = Some a \<longrightarrow>
        (\<exists>t. heap c a = Some t \<and> tk_lid t = L \<and> tk_type t = Str T))"

definition lidsTyped :: "cache \<Rightarrow> bool" where
  "lidsTyped c \<longleftrightarrow>
     (\<forall>L a. lids c L = Some a \<longrightarrow> (\<exists>t. heap c a = Some t \<and> tk_lid t = L))"

definition lidTablesAgree :: "cache \<Rightarrow> bool" where
  "lidTablesAgree c \<longleftrightarrow>
     (\<forall>T L a. ko_lid (typeIndex c T) L = Some a \<longrightarrow> lids c L = Some a)"

definition tablesTyped :: "cache \<Rightarrow> bool" where
  "tablesTyped c \<longleftrightarrow> allocated c \<and> lidTablesTyped c \<and> lidsTyped c"

text \<open>
  An entry of a type's \<open>id\<close> table leads to a live identifier of that type which
  has the key as its \<open>id\<close>.
\<close>

definition idTablesLive :: "cache \<Rightarrow> bool" where
  "idTablesLive c \<longleftrightarrow>
     (\<forall>T i a. ko_id (typeIndex c T) i = Some a \<longrightarrow>
        (\<exists>t. heap c a = Some t \<and> typeKey (tk_type t) = T \<and> tk_id t = Some i \<and>
             lids c (tk_lid t) = Some a))"

definition tablesAgree :: "cache \<Rightarrow> bool" where
  "tablesAgree c \<longleftrightarrow> tablesTyped c \<and> lidTablesAgree c \<and> idTablesLive c"

text \<open>
  A sequence of calls in which every call of \<open>updateRecordIdentifier\<close> has left the
  \<open>id\<close> tables with such entries only.
\<close>

fun soundUpdates :: "env \<Rightarrow> operation list \<Rightarrow> cache \<Rightarrow> bool" where
  "soundUpdates env [] c = True"
| "soundUpdates env (x # xs) c =
     ((isUpdate x \<longrightarrow> idTablesLive (step env x c)) \<and> soundUpdates env xs (step env x c))"

text \<open>
  No identifier is twice in the list of a type, and the identifiers of the lists are
  objects that have been made; every identifier has a string as its type.
\<close>

definition listsFresh :: "cache \<Rightarrow> bool" where
  "listsFresh c \<longleftrightarrow>
     (\<forall>T. distinct (allIdentifiers (typeIndex c T)) \<and>
          set (allIdentifiers (typeIndex c T)) \<subseteq> {a. a < nextAddr c})"

definition namedTypes :: "cache \<Rightarrow> bool" where
  "namedTypes c \<longleftrightarrow> (\<forall>a t. heap c a = Some t \<longrightarrow> (\<exists>s. tk_type t = Str s))"

definition shaped :: "env \<Rightarrow> cache \<Rightarrow> bool" where
  "shaped env c \<longleftrightarrow> listsFresh c \<and> (DEBUG env \<longrightarrow> namedTypes c)"

subsection \<open>An environment and caches to run the code on\<close>

text \<open>
  An environment whose \<open>normalizeModelName\<close> leaves a name as it is (the names used
  below are lower-case words, which dasherizing does not change) and whose random keys
  are \<open>uuid-\<close>, \<open>uuid-x\<close>, \<open>uuid-xx\<close> and so on; a cache as the constructor makes
  it, with the default generation method; and resource data with a type and an id.
\<close>

definition exampleEnv :: "bool \<Rightarrow> env" where
  "exampleEnv debug =
     \<lparr>DEBUG = debug, normalizeModelName = (\<lambda>s. s), normalizeNonString = typeKey,
      uuidv4 = (\<lambda>n. ''uuid-'' @ replicate n (CHR ''x''))\<rparr>"

definition newCache :: "bool \<Rightarrow> cache" where
  "newCache debug = newIdentifierCache (exampleEnv debug) None"

definition typeAndId :: "string \<Rightarrow> string \<Rightarrow> resource" where
  "typeAndId type idv = \<lparr>r_type = Str type, r_id = Str idv, r_lid = Absent\<rparr>"

definition onlyId :: "field \<Rightarrow> resource" where
  "onlyId idv = \<lparr>r_type = Absent, r_id = idv, r_lid = Absent\<rparr>"

text \<open>A cache that has resolved \<open>{type: 'person', id: '5'}\<close>, and data for the same
  \<open>lid\<close> with the id \<open>'6'\<close>.\<close>

definition person5Cache :: "bool \<Rightarrow> cache" where
  "person5Cache debug =
     run (exampleEnv debug) [GetOrCreate (Data (typeAndId ''person'' ''5''))] (newCache debug)"

definition person6 :: resource where
  "person6 = \<lparr>r_type = Str ''person'', r_id = Str ''6'',
               r_lid = Str ''@ember-data:lid-person-5''\<rparr>"

text \<open>A cache that has resolved two tags, with the ids \<open>'3'\<close> and \<open>'4'\<close>; the same
  with a merge method that keeps the identifier it was matched with; and a cache with
  the tag \<open>'3'\<close> and a new tag record that has no id.\<close>

definition tagsCache :: "bool \<Rightarrow> cache" where
  "tagsCache debug =
     run (exampleEnv debug)
       [GetOrCreate (Data (typeAndId ''tag'' ''3'')), GetOrCreate (Data (typeAndId ''tag'' ''4''))]
       (newCache debug)"

definition keepMatched :: mergeMethod where
  "keepMatched identifier matchedIdentifier data = Some matchedIdentifier"

definition mergingTagsCache :: "bool \<Rightarrow> cache" where
  "mergingTagsCache debug = configureMerge (Some keepMatched) (tagsCache debug)"

definition tagAndNewTagCache :: "bool \<Rightarrow> cache" where
  "tagAndNewTagCache debug =
     configureMerge (Some keepMatched)
       (run (exampleEnv debug)
          [GetOrCreate (Data (typeAndId ''tag'' ''3'')),
           CreateNew \<lparr>n_type = ''tag'', n_id = Absent\<rparr>]
          (newCache debug))"

text \<open>A generation method that always draws a random key, and a cache made with it.\<close>

definition randomKeys :: "bool \<Rightarrow> generationMethod" where
  "randomKeys debug n data = uuidv4 (exampleEnv debug) n"

definition randomKeysCache :: "bool \<Rightarrow> cache" where
  "randomKeysCache debug = newIdentifierCache (exampleEnv debug) (Some (randomKeys debug))"

text \<open>A cache with a person resolved from the server's data and a new person record
  that was then given the same id; the same after the new record has been forgotten.\<close>

definition twoPersonsCache :: "bool \<Rightarrow> cache" where
  "twoPersonsCache debug =
     run (exampleEnv debug)
       [GetOrCreate (Data (typeAndId ''person'' ''1'')),
        CreateNew \<lparr>n_type = ''person'', n_id = Absent\<rparr>,
        Update (Token 1) (onlyId (Str ''1''))]
       (newCache debug)"

definition forgottenPersonCache :: "bool \<Rightarrow> cache" where
  "forgottenPersonCache debug = run (exampleEnv debug) [Forget (Token 1)] (twoPersonsCache debug)"

text \<open>Data with a \<open>lid\<close> of the caller's: for a pet that the cache has not seen, and
  for the person that it has resolved, under another \<open>lid\<close>.\<close>

definition pet9 :: resource where
  "pet9 = \<lparr>r_type = Str ''pet'', r_id = Str ''9'', r_lid = Str ''my-lid''\<rparr>"

definition person5Other :: resource where
  "person5Other = \<lparr>r_type = Str ''person'', r_id = Str ''5'', r_lid = Str ''other-lid''\<rparr>"

text \<open>
  Two sequences of calls. In the first an identifier loses its id by an update with
  \<open>id: null\<close> and is forgotten, which leaves it in the \<open>id\<close> table of its type; its
  \<open>lid\<close> is then given to an identifier of another type; and a call of
  \<open>forgetRecordIdentifier\<close> with the first type and id resolves to the forgotten
  identifier. In the second, two resources of different types get the same generated
  key.
\<close>

definition staleForgetCalls :: "operation list" where
  "staleForgetCalls =
     [GetOrCreate (Data \<lparr>r_type = Str ''x'', r_id = Str ''1'', r_lid = Str ''L''\<rparr>),
      Update (Token 0) \<lparr>r_type = Str ''x'', r_id = Null, r_lid = Str ''L''\<rparr>,
      Forget (Token 0),
      GetOrCreate (Data \<lparr>r_type = Str ''y'', r_id = Absent, r_lid = Str ''L''\<rparr>),
      Forget (Data (typeAndId ''x'' ''1''))]"

definition collidingCalls :: "operation list" where
  "collidingCalls =
     [GetOrCreate (Data (typeAndId ''a-b'' ''c'')), GetOrCreate (Data (typeAndId ''a'' ''b-c''))]"

text \<open>
  The calls of a host that creates a person, saves it, and is given the id \<open>5\<close> for
  it.
\<close>

definition savedAsFive :: "operation list" where
  "savedAsFive =
     [CreateNew \<lparr>n_type = ''person'', n_id = Absent\<rparr>,
      Update (Token 1) (onlyId (Str ''5''))]"

text \<open>
  A cache with a merge method in which the tag \<open>'3'\<close> was made as a new record with
  its id and the tag \<open>'4'\<close> was resolved from data.
\<close>

definition newTagAndTagCache :: "bool \<Rightarrow> cache" where
  "newTagAndTagCache debug =
     configureMerge (Some keepMatched)
       (run (exampleEnv debug)
          [CreateNew \<lparr>n_type = ''tag'', n_id = Str ''3''\<rparr>,
           GetOrCreate (Data (typeAndId ''tag'' ''4''))]
          (newCache debug))"

text \<open>
  Three persons resolved from data, the first of them then forgotten twice: through
  its data, which leaves the object marked, and through the object.
\<close>

definition forgottenTwiceCache :: "bool \<Rightarrow> cache" where
  "forgottenTwiceCache debug =
     run (exampleEnv debug)
       [GetOrCreate (Data (typeAndId ''person'' ''5'')),
        GetOrCreate (Data (typeAndId ''person'' ''6'')),
        GetOrCreate (Data (typeAndId ''person'' ''7'')),
        Forget (Data (typeAndId ''person'' ''5'')),
        Forget (Token 0)]
       (newCache debug)"

text \<open>
  An environment whose \<open>normalizeModelName\<close> turns \<open>blogPost\<close> into \<open>blog-post\<close>, a
  merge method that keeps the identifier that is updated, and a cache in which a new
  record of the type \<open>blogPost\<close> was saved with data of that type and the id \<open>1\<close>.
\<close>

definition dasherizingEnv :: "bool \<Rightarrow> env" where
  "dasherizingEnv debug =
     (exampleEnv debug)
       \<lparr>normalizeModelName := (\<lambda>s. if s = ''blogPost'' then ''blog-post'' else s)\<rparr>"

definition keepUpdated :: mergeMethod where
  "keepUpdated identifier matchedIdentifier data = Some identifier"

definition blogPostCache :: "bool \<Rightarrow> cache" where
  "blogPostCache debug =
     run (dasherizingEnv debug)
       [CreateNew \<lparr>n_type = ''blogPost'', n_id = Absent\<rparr>,
        Update (Token 0) \<lparr>r_type = Str ''blogPost'', r_id = Str ''1'', r_lid = Absent\<rparr>]
       (configureMerge (Some keepUpdated)
          (newIdentifierCache (dasherizingEnv debug) None))"

text \<open>Data that has a \<open>lid\<close> and nothing else, as an \<open>Identifier\<close> has.\<close>

definition onlyLid :: "string \<Rightarrow> resource" where
  "onlyLid l = \<lparr>r_type = Absent, r_id = Absent, r_lid = Str l\<rparr>"

text \<open>
  A sequence of calls with updates: a new person is saved and gets the id \<open>6\<close>, the
  person \<open>5\<close> is given the id \<open>7\<close>, and the first of the two is forgotten.
\<close>

definition updatingCalls :: "operation list" where
  "updatingCalls =
     [GetOrCreate (Data (typeAndId ''person'' ''5'')),
      CreateNew \<lparr>n_type = ''person'', n_id = Absent\<rparr>,
      Update (Token 1) (onlyId (Str ''6'')),
      Update (Token 0) (onlyId (Str ''7'')),
      Forget (Token 1),
      GetOrCreate (Data (typeAndId ''pet'' ''5''))]"

section \<open>Basic facts\<close>

subsection \<open>Reading and writing a type's index\<close>

lemma getTypeIndex_fields [simp]:
  "lids (getTypeIndex T c) = lids c"
  "heap (getTypeIndex T c) = heap c"
  "marked (getTypeIndex T c) = marked c"
  "nextAddr (getTypeIndex T c) = nextAddr c"
  "generate (getTypeIndex T c) = generate c"
  "merge (getTypeIndex T c) = merge c"
  "generated (getTypeIndex T c) = generated c"
  "updateLog (getTypeIndex T c) = updateLog c"
  "forgetLog (getTypeIndex T c) = forgetLog c"
  "mergeLog (getTypeIndex T c) = mergeLog c"
  "warnLog (getTypeIndex T c) = warnLog c"
  by (simp_all add: getTypeIndex_def split: option.splits)

lemma typeIndex_getTypeIndex [simp]: "typeIndex (getTypeIndex T c) = typeIndex c"
  by (auto simp: getTypeIndex_def typeIndex_def fun_eq_iff split: option.splits)

lemma setTypeIndex_fields [simp]:
  "lids (setTypeIndex T k c) = lids c"
  "heap (setTypeIndex T k c) = heap c"
  "marked (setTypeIndex T k c) = marked c"
  "nextAddr (setTypeIndex T k c) = nextAddr c"
  "generate (setTypeIndex T k c) = generate c"
  "merge (setTypeIndex T k c) = merge c"
  "generated (setTypeIndex T k c) = generated c"
  "updateLog (setTypeIndex T k c) = updateLog c"
  "forgetLog (setTypeIndex T k c) = forgetLog c"
  "mergeLog (setTypeIndex T k c) = mergeLog c"
  "warnLog (setTypeIndex T k c) = warnLog c"
  by (simp_all add: setTypeIndex_def)

lemma typeIndex_setTypeIndex [simp]:
  "typeIndex (setTypeIndex T k c) T' = (if T' = T then k else typeIndex c T')"
  by (simp add: setTypeIndex_def typeIndex_def)

lemma typeIndex_update [simp]:
  "typeIndex (c\<lparr>lids := x1\<rparr>) = typeIndex c"
  "typeIndex (c\<lparr>heap := x2\<rparr>) = typeIndex c"
  "typeIndex (c\<lparr>marked := x3\<rparr>) = typeIndex c"
  "typeIndex (c\<lparr>nextAddr := x4\<rparr>) = typeIndex c"
  "typeIndex (c\<lparr>generated := x5\<rparr>) = typeIndex c"
  "typeIndex (c\<lparr>updateLog := x6\<rparr>) = typeIndex c"
  "typeIndex (c\<lparr>forgetLog := x7\<rparr>) = typeIndex c"
  "typeIndex (c\<lparr>mergeLog := x8\<rparr>) = typeIndex c"
  "typeIndex (c\<lparr>warnLog := x9\<rparr>) = typeIndex c"
  "typeIndex (c\<lparr>merge := x10\<rparr>) = typeIndex c"
  "typeIndex (c\<lparr>generate := x11\<rparr>) = typeIndex c"
  by (simp_all add: typeIndex_def fun_eq_iff)

lemma typeIndex_new [simp]: "typeIndex (emptyLogs g) T = emptyIndex"
  by (simp add: typeIndex_def emptyLogs_def)

lemma typeKey_simps [simp]:
  "typeKey (Str s) = s"
  "typeKey Absent = ''undefined''"
  "typeKey Null = ''null''"
  by (simp_all add: typeKey_def)

lemma normalized_simps [simp]:
  "normalized env Absent = Absent"
  "normalized env Null = Null"
  "normalized env (Str []) = Str []"
  "s \<noteq> [] \<Longrightarrow> normalized env (Str s) = Str (normalizeModelName env s)"
  by (simp_all add: normalized_def)

lemma newTypeOf_lid [simp]: "newTypeOf env (data\<lparr>r_lid := x\<rparr>) = newTypeOf env data"
  by (simp add: newTypeOf_def)

lemma exampleEnv_simps [simp]:
  "DEBUG (exampleEnv b) = b"
  "normalizeModelName (exampleEnv b) s = s"
  "normalizeNonString (exampleEnv b) v = typeKey v"
  "uuidv4 (exampleEnv b) n = ''uuid-'' @ replicate n (CHR ''x'')"
  by (simp_all add: exampleEnv_def)

subsection \<open>Lists of identifiers\<close>

lemma splice1_indexOf:
  "splice1 xs (indexOf xs x) = (if x \<in> set xs then remove1 x xs else butlast xs)"
  by (induction xs) (auto simp: splice1_def split: option.splits)

lemma notin_splice1: "distinct xs \<Longrightarrow> x \<notin> set (splice1 xs (indexOf xs x))"
  by (auto simp: splice1_indexOf dest: in_set_butlastD)

subsection \<open>Calls with a marked identifier, calls with plain data\<close>

lemma getRecordIdentifier_stable:
  assumes "a \<in> marked c" "heap c a = Some t" "DEBUG env \<longrightarrow> lids c (tk_lid t) = Some a"
  shows "getRecordIdentifier env (Token a) sg c = (Inr (Some a), c)"
  using assms by (auto simp: getRecordIdentifier_def isStableIdentifier_def)

lemma forget_stable:
  assumes "a \<in> marked c" "heap c a = Some t" "DEBUG env \<longrightarrow> lids c (tk_lid t) = Some a"
  shows "forgetRecordIdentifier env (Token a) c = forgetResolved (Token a) a c"
  using assms
  by (simp add: forgetRecordIdentifier_def getOrCreateRecordIdentifier_def
        getRecordIdentifier_stable)

lemma getRecordIdentifier_data:
  "getRecordIdentifier env (Data d) sg c = resolveResource env d sg c"
  by (simp add: getRecordIdentifier_def isStableIdentifier_def refFields_def)

lemma peek_data: "peekRecordIdentifier env (Data d) c = resolveResource env d False c"
  by (simp add: peekRecordIdentifier_def getRecordIdentifier_data)

lemma getOrCreate_data:
  "getOrCreateRecordIdentifier env (Data d) c = resolveResource env d True c"
  by (simp add: getOrCreateRecordIdentifier_def getRecordIdentifier_data)

subsection \<open>Running the code on given caches\<close>

lemmas run_defs =
  newCache_def newIdentifierCache_def emptyLogs_def defaultGenerationMethod_def
  defaultEmptyCallback_def configureMerge_def typeAndId_def onlyId_def
  getOrCreateRecordIdentifier_def peekRecordIdentifier_def getRecordIdentifier_def
  isStableIdentifier_def refFields_def resolveResource_def populate_def
  makeStableRecordIdentifier_def markStableIdentifier_def unmarkStableIdentifier_def
  createIdentifierForNewRecord_def forgetRecordIdentifier_def forgetResolved_def
  updateRecordIdentifier_def detectMerge_def newTypeOf_def updateResolved_def
  mergeRecordIdentifiers_def keepIdentifier_def mergeDetected_def
  performRecordIdentifierUpdate_def propertyKey_def
  normalized_def normalizedText_def typeKey_def isTruthy_def
  coerceId_def hasKey_def isNonEmptyString_def truthy_def fieldOfId_def lidPrefix_def
  fromMap_def splice1_def emptyIndex_def typeIndex_def getTypeIndex_def setTypeIndex_def
  Let_def

lemma person5Cache_fields:
  "heap (person5Cache b) 0 =
     Some \<lparr>tk_lid = ''@ember-data:lid-person-5'', tk_id = Some ''5'', tk_type = Str ''person''\<rparr>"
  "0 \<in> marked (person5Cache b)"
  "lids (person5Cache b) ''@ember-data:lid-person-5'' = Some 0"
  "ko_id (typeIndex (person5Cache b) ''person'') ''5'' = Some 0"
  "warnLog (person5Cache b) = []"
  by (simp_all add: person5Cache_def run_defs)

lemma tagsCache_fields:
  "heap (tagsCache b) 0 =
     Some \<lparr>tk_lid = ''@ember-data:lid-tag-3'', tk_id = Some ''3'', tk_type = Str ''tag''\<rparr>"
  "heap (tagsCache b) (Suc 0) =
     Some \<lparr>tk_lid = ''@ember-data:lid-tag-4'', tk_id = Some ''4'', tk_type = Str ''tag''\<rparr>"
  "marked (tagsCache b) = {0, Suc 0}"
  "lids (tagsCache b) ''@ember-data:lid-tag-3'' = Some 0"
  "lids (tagsCache b) ''@ember-data:lid-tag-4'' = Some (Suc 0)"
  "ko_id (typeIndex (tagsCache b) ''tag'') ''3'' = Some 0"
  "ko_id (typeIndex (tagsCache b) ''tag'') ''4'' = Some (Suc 0)"
  "allIdentifiers (typeIndex (tagsCache b) ''tag'') = [0, Suc 0]"
  "forgetLog (tagsCache b) = []"
  "mergeLog (tagsCache b) = []"
  "merge (tagsCache b) = defaultEmptyCallback"
  by (simp_all add: tagsCache_def run_defs insert_commute)

section \<open>Expected absence and the round trip of a new record\<close>

text \<open>
  Claim C9. A call of \<open>peekRecordIdentifier\<close> with resource data whose \<open>lid\<close> is in
  no entry of the global table, and which does not have both a non-empty \<open>type\<close> and
  a non-empty \<open>id\<close>, returns \<open>undefined\<close>: it does not throw, and it leaves the
  cache as it was, so no identifier is made.
\<close>

theorem peek_expected_absence:
  assumes "\<forall>l. coerceId (r_lid d) = Some l \<longrightarrow> lids c l = None"
    and "\<not> (truthy (r_type d) \<and> truthy (r_id d))"
  shows "peekRecordIdentifier env (Data d) c = (Inr None, c)"
  using assms
  by (cases "coerceId (r_lid d)")
     (auto simp: peek_data resolveResource_def fromMap_def Let_def)

theorem peek_expected_absence_witness:
  "coerceId (Str ''unknown'') = Some ''unknown'' \<and>
   lids (person5Cache True) ''unknown'' = None \<and>
   \<not> truthy Absent \<and>
   peekRecordIdentifier (exampleEnv True)
     (Data \<lparr>r_type = Str ''person'', r_id = Absent, r_lid = Str ''unknown''\<rparr>)
     (person5Cache True) = (Inr None, person5Cache True)"
proof -
  have l: "lids (person5Cache True) ''unknown'' = None"
    by (simp add: person5Cache_def run_defs)
  have h1: "\<forall>l. coerceId (r_lid \<lparr>r_type = Str ''person'', r_id = Absent, r_lid = Str ''unknown''\<rparr>)
              = Some l \<longrightarrow> lids (person5Cache True) l = None"
    using l by (simp add: coerceId_def)
  have h2: "\<not> (truthy (r_type \<lparr>r_type = Str ''person'', r_id = Absent, r_lid = Str ''unknown''\<rparr>)
              \<and> truthy (r_id \<lparr>r_type = Str ''person'', r_id = Absent, r_lid = Str ''unknown''\<rparr>))"
    by (simp add: truthy_def)
  show ?thesis
    using peek_expected_absence [OF h1 h2, of "exampleEnv True"] l
    by (simp add: coerceId_def truthy_def)
qed

text \<open>
  Claim C8. \<open>createIdentifierForNewRecord\<close> with a type and no id gives an identifier
  whose \<open>id\<close> is \<open>null\<close>; \<open>updateRecordIdentifier\<close> on that identifier with the data
  \<open>{id: i}\<close> returns the identifier and sets its \<open>id\<close> to \<open>i\<close>; and
  \<open>getOrCreateRecordIdentifier\<close> with \<open>{type, id: i}\<close> then returns the same object.
  The type is one that \<open>normalizeModelName\<close> leaves as it is, as \<open>person\<close> is; the
  claim's case is the type \<open>person\<close> and the id \<open>42\<close>.
\<close>

lemma createNew_without_id:
  assumes "createIdentifierForNewRecord env \<lparr>n_type = T, n_id = Absent\<rparr> c = (Inr t, c1)"
  shows "t \<in> marked c1 \<and>
         (\<exists>L. heap c1 t = Some \<lparr>tk_lid = L, tk_id = None, tk_type = Str T\<rparr> \<and> lids c1 L = Some t)"
  using assms
  by (auto simp: createIdentifierForNewRecord_def makeStableRecordIdentifier_def
        markStableIdentifier_def Let_def truthy_def split: if_splits)

lemma update_assigns_first_id:
  assumes "t \<in> marked c1" "heap c1 t = Some \<lparr>tk_lid = L, tk_id = None, tk_type = Str T\<rparr>"
    and "lids c1 L = Some t" "i \<noteq> []"
  shows "\<exists>c2. updateRecordIdentifier env (Token t) (onlyId (Str i)) c1
                 = (Inr t, onlyId (Str i), c2) \<and>
              heap c2 t = Some \<lparr>tk_lid = L, tk_id = Some i, tk_type = Str T\<rparr> \<and>
              ko_id (typeIndex c2 T) i = Some t"
  using assms
  by (simp add: updateRecordIdentifier_def getOrCreateRecordIdentifier_def
        getRecordIdentifier_def isStableIdentifier_def detectMerge_def mergeDetected_def
        newTypeOf_def hasKey_def isTruthy_def
        coerceId_def truthy_def updateResolved_def performRecordIdentifierUpdate_def Let_def
        onlyId_def)

lemma getOrCreate_by_id:
  assumes "ko_id (typeIndex c2 (normalizeModelName env T)) i = Some t" "i \<noteq> []" "T \<noteq> []"
  shows "getOrCreateRecordIdentifier env (Data (typeAndId T i)) c2
           = (Inr (Some t), getTypeIndex (normalizeModelName env T) c2)"
  using assms
  by (simp add: getOrCreate_data resolveResource_def coerceId_def hasKey_def
        isNonEmptyString_def Let_def typeAndId_def)

theorem new_record_round_trip:
  assumes norm: "normalizeModelName env T = T" and T: "T \<noteq> []" and i: "i \<noteq> []"
    and new: "createIdentifierForNewRecord env \<lparr>n_type = T, n_id = Absent\<rparr> c = (Inr t, c1)"
  shows "\<exists>L c2 c3.
           heap c1 t = Some \<lparr>tk_lid = L, tk_id = None, tk_type = Str T\<rparr> \<and>
           updateRecordIdentifier env (Token t) (onlyId (Str i)) c1
             = (Inr t, onlyId (Str i), c2) \<and>
           heap c2 t = Some \<lparr>tk_lid = L, tk_id = Some i, tk_type = Str T\<rparr> \<and>
           getOrCreateRecordIdentifier env (Data (typeAndId T i)) c2 = (Inr (Some t), c3)"
proof -
  from createNew_without_id [OF new] obtain L where
    m: "t \<in> marked c1" and h: "heap c1 t = Some \<lparr>tk_lid = L, tk_id = None, tk_type = Str T\<rparr>"
    and l: "lids c1 L = Some t"
    by blast
  from update_assigns_first_id [OF m h l i, of env] obtain c2 where
    u: "updateRecordIdentifier env (Token t) (onlyId (Str i)) c1 = (Inr t, onlyId (Str i), c2)"
    and h2: "heap c2 t = Some \<lparr>tk_lid = L, tk_id = Some i, tk_type = Str T\<rparr>"
    and k: "ko_id (typeIndex c2 T) i = Some t"
    by blast
  from k norm have "ko_id (typeIndex c2 (normalizeModelName env T)) i = Some t"
    by simp
  from getOrCreate_by_id [OF this i T] h u h2 show ?thesis
    by blast
qed

theorem new_record_round_trip_witness:
  "normalizeModelName (exampleEnv True) ''person'' = ''person'' \<and>
   fst (createIdentifierForNewRecord (exampleEnv True) \<lparr>n_type = ''person'', n_id = Absent\<rparr>
          (person5Cache True)) = Inr 1 \<and>
   (\<exists>L c1 c2 c3.
      createIdentifierForNewRecord (exampleEnv True) \<lparr>n_type = ''person'', n_id = Absent\<rparr>
          (person5Cache True) = (Inr 1, c1) \<and>
      heap c1 1 = Some \<lparr>tk_lid = L, tk_id = None, tk_type = Str ''person''\<rparr> \<and>
      updateRecordIdentifier (exampleEnv True) (Token 1) (onlyId (Str ''42'')) c1
        = (Inr 1, onlyId (Str ''42''), c2) \<and>
      heap c2 1 = Some \<lparr>tk_lid = L, tk_id = Some ''42'', tk_type = Str ''person''\<rparr> \<and>
      getOrCreateRecordIdentifier (exampleEnv True) (Data (typeAndId ''person'' ''42'')) c2
        = (Inr (Some 1), c3))"
proof -
  have n: "normalizeModelName (exampleEnv True) ''person'' = ''person''"
    by simp
  have f: "fst (createIdentifierForNewRecord (exampleEnv True)
                  \<lparr>n_type = ''person'', n_id = Absent\<rparr> (person5Cache True)) = Inr 1"
    by (simp add: person5Cache_def run_defs)
  then have new: "createIdentifierForNewRecord (exampleEnv True)
                    \<lparr>n_type = ''person'', n_id = Absent\<rparr> (person5Cache True)
                  = (Inr 1, snd (createIdentifierForNewRecord (exampleEnv True)
                    \<lparr>n_type = ''person'', n_id = Absent\<rparr> (person5Cache True)))"
    by (metis prod.collapse)
  have "''person'' \<noteq> []" "''42'' \<noteq> []"
    by simp_all
  from new_record_round_trip [OF n this new] n f new show ?thesis
    by blast
qed

section \<open>Three calls on which the code and its documentation part\<close>

text \<open>
  Claim C2. An identifier whose \<open>id\<close> is \<open>5\<close> is to keep it when
  \<open>updateRecordIdentifier\<close> is called with data of the same \<open>lid\<close> and the id \<open>6\<close>.
  The code does otherwise: on the cache that has resolved \<open>{type: 'person', id: '5'}\<close>
  the call returns the identifier with its \<open>id\<close> set to \<open>6\<close>, and the type's \<open>id\<close>
  table has moved the identifier from the key \<open>5\<close> to the key \<open>6\<close>. A DEBUG build
  warns and a production build is silent; both assign.
\<close>

theorem update_replaces_set_id:
  "map_option tk_id (heap (person5Cache True) 0) = Some (Some ''5'') \<and>
   fst (updateRecordIdentifier (exampleEnv True) (Token 0) person6 (person5Cache True)) = Inr 0 \<and>
   map_option tk_id
     (heap (step (exampleEnv True) (Update (Token 0) person6) (person5Cache True)) 0)
     = Some (Some ''6'') \<and>
   warnLog (step (exampleEnv True) (Update (Token 0) person6) (person5Cache True))
     = [(0, Some ''6'')] \<and>
   ko_id (typeIndex (step (exampleEnv True) (Update (Token 0) person6) (person5Cache True))
            ''person'') ''5'' = None \<and>
   ko_id (typeIndex (step (exampleEnv True) (Update (Token 0) person6) (person5Cache True))
            ''person'') ''6'' = Some 0 \<and>
   fst (updateRecordIdentifier (exampleEnv False) (Token 0) person6 (person5Cache False)) = Inr 0 \<and>
   map_option tk_id
     (heap (step (exampleEnv False) (Update (Token 0) person6) (person5Cache False)) 0)
     = Some (Some ''6'') \<and>
   warnLog (step (exampleEnv False) (Update (Token 0) person6) (person5Cache False)) = []"
  by (simp add: person5Cache_def person6_def run_defs)

text \<open>
  Claim C3. On a cache whose merge method was never configured, no call of
  \<open>updateRecordIdentifier\<close> is to forget an identifier, and the call is to return a
  live identifier. The code does otherwise: with the tags \<open>3\<close> and \<open>4\<close> resolved,
  updating the second with \<open>{id: '3'}\<close> finds the first as a candidate, calls the empty
  callback, forgets the second identifier (it loses its mark and its entries, and the
  forget method is called with it), takes the first out of the \<open>id\<close> table, and
  throws on reading \<open>lid\<close> of \<open>undefined\<close>.
\<close>

theorem default_merge_forgets_and_throws:
  "merge (tagsCache True) = defaultEmptyCallback \<and>
   1 \<in> marked (tagsCache True) \<and>
   lids (tagsCache True) ''@ember-data:lid-tag-4'' = Some 1 \<and>
   ko_id (typeIndex (tagsCache True) ''tag'') ''3'' = Some 0 \<and>
   fst (updateRecordIdentifier (exampleEnv True) (Token 1) (onlyId (Str ''3'')) (tagsCache True))
     = Inl TypeError \<and>
   forgetLog (step (exampleEnv True) (Update (Token 1) (onlyId (Str ''3''))) (tagsCache True))
     = [1] \<and>
   1 \<notin> marked (step (exampleEnv True) (Update (Token 1) (onlyId (Str ''3''))) (tagsCache True)) \<and>
   lids (step (exampleEnv True) (Update (Token 1) (onlyId (Str ''3''))) (tagsCache True))
     ''@ember-data:lid-tag-4'' = None \<and>
   allIdentifiers
     (typeIndex (step (exampleEnv True) (Update (Token 1) (onlyId (Str ''3''))) (tagsCache True))
        ''tag'') = [0] \<and>
   ko_id
     (typeIndex (step (exampleEnv True) (Update (Token 1) (onlyId (Str ''3''))) (tagsCache True))
        ''tag'') ''3'' = None \<and>
   fst (updateRecordIdentifier (exampleEnv False) (Token 1) (onlyId (Str ''3'')) (tagsCache False))
     = Inl TypeError \<and>
   forgetLog (step (exampleEnv False) (Update (Token 1) (onlyId (Str ''3''))) (tagsCache False))
     = [1]"
  by (simp add: tagsCache_def run_defs insert_commute)

text \<open>
  Claim C7. \<open>createIdentifierForNewRecord\<close> is to enter the new identifier in the
  global table, in the type's \<open>lid\<close> table and in the type's list, and, when the data
  has an id, in the type's \<open>id\<close> table as well. The code does the first three and
  not the last: for \<open>{type: 'person', id: '42'}\<close> the identifier gets the id and the
  \<open>id\<close> table stays empty. With a generation method that draws a random key each
  time, \<open>getOrCreateRecordIdentifier\<close> for the same type and id then makes a second
  identifier.
\<close>

theorem new_record_not_in_id_table:
  "fst (createIdentifierForNewRecord (exampleEnv True) \<lparr>n_type = ''person'', n_id = Str ''42''\<rparr>
          (newCache True)) = Inr 0 \<and>
   heap (step (exampleEnv True) (CreateNew \<lparr>n_type = ''person'', n_id = Str ''42''\<rparr>)
           (newCache True)) 0
     = Some \<lparr>tk_lid = ''@ember-data:lid-person-42'', tk_id = Some ''42'', tk_type = Str ''person''\<rparr> \<and>
   lids (step (exampleEnv True) (CreateNew \<lparr>n_type = ''person'', n_id = Str ''42''\<rparr>)
           (newCache True)) ''@ember-data:lid-person-42'' = Some 0 \<and>
   ko_lid (typeIndex (step (exampleEnv True) (CreateNew \<lparr>n_type = ''person'', n_id = Str ''42''\<rparr>)
           (newCache True)) ''person'') ''@ember-data:lid-person-42'' = Some 0 \<and>
   allIdentifiers (typeIndex (step (exampleEnv True)
           (CreateNew \<lparr>n_type = ''person'', n_id = Str ''42''\<rparr>) (newCache True)) ''person'') = [0] \<and>
   ko_id (typeIndex (step (exampleEnv True) (CreateNew \<lparr>n_type = ''person'', n_id = Str ''42''\<rparr>)
           (newCache True)) ''person'') ''42'' = None \<and>
   fst (createIdentifierForNewRecord (exampleEnv True) \<lparr>n_type = ''person'', n_id = Str ''42''\<rparr>
          (randomKeysCache True)) = Inr 0 \<and>
   fst (getOrCreateRecordIdentifier (exampleEnv True) (Data (typeAndId ''person'' ''42''))
          (step (exampleEnv True) (CreateNew \<lparr>n_type = ''person'', n_id = Str ''42''\<rparr>)
             (randomKeysCache True))) = Inr (Some 1)"
  by (simp add: randomKeysCache_def randomKeys_def run_defs)

section \<open>Merging\<close>

lemma resolve_by_id:
  assumes "ko_id (typeIndex c (normalizeModelName env T)) i = Some t" "i \<noteq> []" "T \<noteq> []"
  shows "resolveResource env (typeAndId T i) sg c
           = (Inr (Some t), getTypeIndex (normalizeModelName env T) c)"
  using assms
  by (simp add: resolveResource_def coerceId_def hasKey_def isNonEmptyString_def truthy_def
        Let_def typeAndId_def)


lemma mergingTagsCache_fields:
  "heap (mergingTagsCache b) 0 =
     Some \<lparr>tk_lid = ''@ember-data:lid-tag-3'', tk_id = Some ''3'', tk_type = Str ''tag''\<rparr>"
  "heap (mergingTagsCache b) (Suc 0) =
     Some \<lparr>tk_lid = ''@ember-data:lid-tag-4'', tk_id = Some ''4'', tk_type = Str ''tag''\<rparr>"
  "marked (mergingTagsCache b) = {0, Suc 0}"
  "lids (mergingTagsCache b) ''@ember-data:lid-tag-3'' = Some 0"
  "lids (mergingTagsCache b) ''@ember-data:lid-tag-4'' = Some (Suc 0)"
  "ko_id (typeIndex (mergingTagsCache b) ''tag'') ''3'' = Some 0"
  "allIdentifiers (typeIndex (mergingTagsCache b) ''tag'') = [0, Suc 0]"
  "forgetLog (mergingTagsCache b) = []"
  "mergeLog (mergingTagsCache b) = []"
  "merge (mergingTagsCache b) = keepMatched"
  by (simp_all add: mergingTagsCache_def configureMerge_def tagsCache_fields)



section \<open>Forgetting\<close>

text \<open>
  Claim C5, as the code has it. For a live identifier \<open>t\<close> (a marked object that the
  global table holds under its \<open>lid\<close>), in a cache whose \<open>lid\<close> tables lead to
  identifiers of their own key and type and in whose list of the type of \<open>t\<close> no
  identifier is twice: \<open>forgetRecordIdentifier\<close> returns; after it
  \<open>peekRecordIdentifier\<close> with the \<open>lid\<close> of \<open>t\<close> finds nothing;
  \<open>peekRecordIdentifier\<close> with the id of \<open>t\<close> and a type that leads to the index
  of the type of \<open>t\<close> (the type of \<open>t\<close> itself, when \<open>normalizeModelName\<close> leaves it
  as it is) does not find \<open>t\<close>; \<open>t\<close> is not in the type's list, which, when \<open>t\<close>
  was in it, is the list without \<open>t\<close>, the others in their order; \<open>t\<close> is no longer
  accepted by \<open>isStableIdentifier\<close>; and the forget method was called with \<open>t\<close>.
  (The claim says that the lookup by type and id finds nothing: it can find another
  identifier, one that the generated key of the data leads to, and it looks in the
  index of the normalized type, which can still hold \<open>t\<close> when that is another
  index. The claim says that the others stay in the list: they do when \<open>t\<close> was
  in it.)
\<close>

theorem forget_removes:
  assumes ht: "heap c t = Some tok" and m: "t \<in> marked c" and l: "lids c (tk_lid tok) = Some t"
    and typed: "lidTablesTyped c"
    and dis: "distinct (allIdentifiers (typeIndex c (typeKey (tk_type tok))))"
  shows "\<exists>c'. forgetRecordIdentifier env (Token t) c = (Inr (), c') \<and>
      peekRecordIdentifier env (Data (onlyLid (tk_lid tok))) c' = (Inr None, c') \<and>
      (\<forall>ty. typeKey (normalized env ty) = typeKey (tk_type tok) \<longrightarrow>
         fst (peekRecordIdentifier env
                (Data \<lparr>r_type = ty, r_id = fieldOfId (tk_id tok), r_lid = Absent\<rparr>) c')
           \<noteq> Inr (Some t)) \<and>
      t \<notin> set (allIdentifiers (typeIndex c' (typeKey (tk_type tok)))) \<and>
      (t \<in> set (allIdentifiers (typeIndex c (typeKey (tk_type tok)))) \<longrightarrow>
         allIdentifiers (typeIndex c' (typeKey (tk_type tok)))
           = remove1 t (allIdentifiers (typeIndex c (typeKey (tk_type tok))))) \<and>
      \<not> isStableIdentifier c' (Token t) \<and> forgetLog c' = forgetLog c @ [t]"
proof -
  define K where "K = typeKey (tk_type tok)"
  define c' where "c' = snd (forgetResolved (Token t) t c)"
  have f: "forgetRecordIdentifier env (Token t) c = (Inr (), c')"
    using ht m l by (simp add: forget_stable c'_def forgetResolved_def Let_def)
  have lids': "lids c' = (lids c)(tk_lid tok := None)"
    and idk: "\<And>i. tk_id tok = Some i \<Longrightarrow> ko_id (typeIndex c' K) i = None"
    and lidk: "\<And>L. ko_lid (typeIndex c' K) L
                 = (if L = tk_lid tok then None else ko_lid (typeIndex c K) L)"
    and alls: "allIdentifiers (typeIndex c' K)
                 = splice1 (allIdentifiers (typeIndex c K)) (indexOf (allIdentifiers (typeIndex c K)) t)"
    and mk: "t \<notin> marked c'" and fl: "forgetLog c' = forgetLog c @ [t]"
    using ht
    by (auto simp: c'_def K_def forgetResolved_def Let_def unmarkStableIdentifier_def
          split: option.splits)
  have p1: "peekRecordIdentifier env (Data (onlyLid (tk_lid tok))) c' = (Inr None, c')"
    by (simp add: peek_data resolveResource_def lids' coerceId_def fromMap_def hasKey_def Let_def
          onlyLid_def)
  have nolid: "\<And>L. ko_lid (typeIndex c' K) L \<noteq> Some t"
    using typed ht unfolding lidk lidTablesTyped_def by (metis option.discI option.inject)
  have p2: "fst (peekRecordIdentifier env
                   (Data \<lparr>r_type = ty, r_id = fieldOfId (tk_id tok), r_lid = Absent\<rparr>) c')
              \<noteq> Inr (Some t)"
    if "typeKey (normalized env ty) = K" for ty
    using nolid idk that
    by (cases "tk_id tok")
       (auto simp: peek_data resolveResource_def coerceId_def fromMap_def hasKey_def truthy_def
          isNonEmptyString_def fieldOfId_def Let_def split: option.splits)
  have "t \<notin> set (splice1 (allIdentifiers (typeIndex c K))
                        (indexOf (allIdentifiers (typeIndex c K)) t))"
    using dis unfolding K_def by (rule notin_splice1)
  then have n: "t \<notin> set (allIdentifiers (typeIndex c' K))"
    by (simp add: alls)
  have r: "allIdentifiers (typeIndex c' K) = remove1 t (allIdentifiers (typeIndex c K))"
    if "t \<in> set (allIdentifiers (typeIndex c K))"
    using that by (simp add: alls splice1_indexOf)
  from f p1 p2 n r mk fl show ?thesis
    unfolding K_def by (auto simp: isStableIdentifier_def)
qed

lemma twoPersonsCache_fields:
  "heap (twoPersonsCache b) (Suc 0) =
     Some \<lparr>tk_lid = ''uuid-x'', tk_id = Some ''1'', tk_type = Str ''person''\<rparr>"
  "heap (twoPersonsCache b) 0 =
     Some \<lparr>tk_lid = ''@ember-data:lid-person-1'', tk_id = Some ''1'', tk_type = Str ''person''\<rparr>"
  "marked (twoPersonsCache b) = {0, Suc 0}"
  "lids (twoPersonsCache b) ''uuid-x'' = Some (Suc 0)"
  "lids (twoPersonsCache b) ''@ember-data:lid-person-1'' = Some 0"
  "allIdentifiers (typeIndex (twoPersonsCache b) ''person'') = [0, Suc 0]"
  "ko_id (typeIndex (twoPersonsCache b) ''person'') ''1'' = Some (Suc 0)"
  "forgetLog (twoPersonsCache b) = []"
  by (simp_all add: twoPersonsCache_def run_defs insert_commute)

lemma twoPersonsCache_typed: "lidTablesTyped (twoPersonsCache b)"
  by (auto simp: lidTablesTyped_def twoPersonsCache_def run_defs split: if_splits)

theorem forget_removes_witness:
  "heap (twoPersonsCache True) 1 =
     Some \<lparr>tk_lid = ''uuid-x'', tk_id = Some ''1'', tk_type = Str ''person''\<rparr> \<and>
   1 \<in> marked (twoPersonsCache True) \<and>
   lids (twoPersonsCache True) ''uuid-x'' = Some 1 \<and>
   lidTablesTyped (twoPersonsCache True) \<and>
   allIdentifiers (typeIndex (twoPersonsCache True) ''person'') = [0, 1] \<and>
   typeKey (normalized (exampleEnv True) (Str ''person'')) = ''person'' \<and>
   (\<exists>c'. forgetRecordIdentifier (exampleEnv True) (Token 1) (twoPersonsCache True) = (Inr (), c') \<and>
      peekRecordIdentifier (exampleEnv True) (Data (onlyLid ''uuid-x'')) c' = (Inr None, c') \<and>
      fst (peekRecordIdentifier (exampleEnv True)
             (Data \<lparr>r_type = Str ''person'', r_id = Str ''1'', r_lid = Absent\<rparr>) c')
        \<noteq> Inr (Some 1) \<and>
      allIdentifiers (typeIndex c' ''person'') = [0] \<and>
      \<not> isStableIdentifier c' (Token 1) \<and> forgetLog c' = [1])"
proof -
  note f = twoPersonsCache_fields [of True]
  define tok where "tok = \<lparr>tk_lid = ''uuid-x'', tk_id = Some ''1'', tk_type = Str ''person''\<rparr>"
  have h: "heap (twoPersonsCache True) (Suc 0) = Some tok"
    by (simp add: f tok_def)
  have k: "typeKey (normalized (exampleEnv True) (Str ''person'')) = ''person''"
    by simp
  from forget_removes [OF h, of "exampleEnv True"] obtain c' where
    "forgetRecordIdentifier (exampleEnv True) (Token (Suc 0)) (twoPersonsCache True) = (Inr (), c')"
    "peekRecordIdentifier (exampleEnv True) (Data (onlyLid (tk_lid tok))) c' = (Inr None, c')"
    "\<forall>ty. typeKey (normalized (exampleEnv True) ty) = typeKey (tk_type tok) \<longrightarrow>
         fst (peekRecordIdentifier (exampleEnv True)
                (Data \<lparr>r_type = ty, r_id = fieldOfId (tk_id tok), r_lid = Absent\<rparr>) c')
           \<noteq> Inr (Some (Suc 0))"
    "Suc 0 \<in> set (allIdentifiers (typeIndex (twoPersonsCache True) (typeKey (tk_type tok)))) \<longrightarrow>
         allIdentifiers (typeIndex c' (typeKey (tk_type tok)))
           = remove1 (Suc 0)
               (allIdentifiers (typeIndex (twoPersonsCache True) (typeKey (tk_type tok))))"
    "\<not> isStableIdentifier c' (Token (Suc 0))"
    "forgetLog c' = forgetLog (twoPersonsCache True) @ [Suc 0]"
    by (auto simp: f tok_def twoPersonsCache_typed)
  then show ?thesis
    using f k twoPersonsCache_typed [of True] by (auto simp: fieldOfId_def tok_def)
qed

theorem forget_peek_counterexample:
  "heap (twoPersonsCache True) 1 =
     Some \<lparr>tk_lid = ''uuid-x'', tk_id = Some ''1'', tk_type = Str ''person''\<rparr> \<and>
   1 \<in> marked (twoPersonsCache True) \<and>
   lids (twoPersonsCache True) ''uuid-x'' = Some 1 \<and>
   ko_lid (typeIndex (twoPersonsCache True) ''person'') ''uuid-x'' = Some 1 \<and>
   ko_id (typeIndex (twoPersonsCache True) ''person'') ''1'' = Some 1 \<and>
   allIdentifiers (typeIndex (twoPersonsCache True) ''person'') = [0, 1] \<and>
   fst (forgetRecordIdentifier (exampleEnv True) (Token 1) (twoPersonsCache True)) = Inr () \<and>
   fst (peekRecordIdentifier (exampleEnv True) (Data (typeAndId ''person'' ''1''))
          (forgottenPersonCache True)) = Inr (Some 0) \<and>
   heap (forgottenTwiceCache False) 2 =
     Some \<lparr>tk_lid = ''@ember-data:lid-person-7'', tk_id = Some ''7'', tk_type = Str ''person''\<rparr> \<and>
   2 \<in> marked (forgottenTwiceCache False) \<and> 1 \<in> marked (forgottenTwiceCache False) \<and>
   lids (forgottenTwiceCache False) ''@ember-data:lid-person-7'' = Some 2 \<and>
   lids (forgottenTwiceCache False) ''@ember-data:lid-person-6'' = Some 1 \<and>
   allIdentifiers (typeIndex (forgottenTwiceCache False) ''person'') = [1] \<and>
   fst (forgetRecordIdentifier (exampleEnv False) (Token 2) (forgottenTwiceCache False)) = Inr () \<and>
   allIdentifiers (typeIndex (step (exampleEnv False) (Forget (Token 2))
                                (forgottenTwiceCache False)) ''person'') = [] \<and>
   heap (blogPostCache False) 0 =
     Some \<lparr>tk_lid = ''uuid-'', tk_id = Some ''1'', tk_type = Str ''blogPost''\<rparr> \<and>
   0 \<in> marked (blogPostCache False) \<and>
   lids (blogPostCache False) ''uuid-'' = Some 0 \<and>
   allIdentifiers (typeIndex (blogPostCache False) ''blogPost'') = [0] \<and>
   fst (forgetRecordIdentifier (dasherizingEnv False) (Token 0) (blogPostCache False)) = Inr () \<and>
   fst (peekRecordIdentifier (dasherizingEnv False) (Data (typeAndId ''blogPost'' ''1''))
          (step (dasherizingEnv False) (Forget (Token 0)) (blogPostCache False)))
     = Inr (Some 0)"
  by (simp add: forgottenPersonCache_def twoPersonsCache_def forgottenTwiceCache_def
        blogPostCache_def dasherizingEnv_def keepUpdated_def exampleEnv_def run_defs
        insert_commute)

section \<open>A \<open>lid\<close> that the caller supplies\<close>

text \<open>
  Claim C6, as the code has it. A call of \<open>_getRecordIdentifier\<close> with resource data
  that has a non-empty \<open>lid\<close> \<open>L\<close>, on a cache whose tables lead to identifiers of
  their own key: an identifier that the call returns has the \<open>lid\<close> \<open>L\<close>, unless it
  is the one that the \<open>id\<close> table of the data's type holds for the data's id; and
  when the call has called the generation method and got a key other than \<open>L\<close>, it
  throws. (The claim has no exception for the lookup by id, which the code makes
  before it generates a key.)
\<close>

lemma populate_new_lid:
  assumes "populate env T i K None c0 = (Inr (Some a), c1)"
  shows "\<exists>t. heap c1 a = Some t \<and> tk_lid t = K"
  using assms
  by (auto simp: populate_def makeStableRecordIdentifier_def markStableIdentifier_def Let_def
        split: if_splits option.splits)

theorem lid_passthrough:
  assumes L: "coerceId (r_lid d) = Some L"
    and lt: "lidsTyped c" and tt: "lidTablesTyped c"
    and res: "getRecordIdentifier env (Data d) sg c = (r, c')"
  shows "(\<forall>a. r = Inr (Some a) \<longrightarrow>
            (\<exists>t. heap c' a = Some t \<and> tk_lid t = L) \<or>
            (\<exists>i. coerceId (r_id d) = Some i \<and>
                 ko_id (typeIndex c (typeKey (normalized env (r_type d)))) i = Some a)) \<and>
         (generated c' \<noteq> generated c \<and>
          generate c (generated c) \<lparr>g_type = r_type d, g_id = r_id d, g_lid = r_lid d\<rparr> \<noteq> L
          \<longrightarrow> r = Inl LidChanged)"
proof -
  have r: "resolveResource env d sg c = (r, c')"
    using res by (simp add: getRecordIdentifier_data)
  show ?thesis
    using r L lt tt
    apply (auto simp: resolveResource_def Let_def fromMap_def lidsTyped_def lidTablesTyped_def
        split: option.splits if_splits)
         apply (blast dest: populate_new_lid)+
    done
qed

lemma person5Cache_typed: "lidsTyped (person5Cache b)" "lidTablesTyped (person5Cache b)"
  by (auto simp: lidsTyped_def lidTablesTyped_def person5Cache_def run_defs split: if_splits)

theorem lid_passthrough_witness:
  "coerceId (r_lid pet9) = Some ''my-lid'' \<and>
   lidsTyped (person5Cache True) \<and> lidTablesTyped (person5Cache True) \<and>
   fst (getRecordIdentifier (exampleEnv True) (Data pet9) True (person5Cache True)) = Inr (Some 1) \<and>
   map_option tk_lid
     (heap (snd (getRecordIdentifier (exampleEnv True) (Data pet9) True (person5Cache True))) 1)
     = Some ''my-lid'' \<and>
   ko_id (typeIndex (person5Cache True) ''pet'') ''9'' = None"
proof -
  have L: "coerceId (r_lid pet9) = Some ''my-lid''"
    by (simp add: pet9_def coerceId_def)
  have f: "fst (getRecordIdentifier (exampleEnv True) (Data pet9) True (person5Cache True))
             = Inr (Some 1)"
    by (simp add: pet9_def person5Cache_def run_defs)
  have n: "ko_id (typeIndex (person5Cache True) ''pet'') ''9'' = None"
    by (simp add: person5Cache_def run_defs)
  have res: "getRecordIdentifier (exampleEnv True) (Data pet9) True (person5Cache True)
      = (Inr (Some 1),
         snd (getRecordIdentifier (exampleEnv True) (Data pet9) True (person5Cache True)))"
    using f by (metis prod.collapse)
  have ty: "typeKey (normalized (exampleEnv True) (r_type pet9)) = ''pet''"
    "coerceId (r_id pet9) = Some ''9''"
    by (simp_all add: pet9_def coerceId_def)
  from lid_passthrough [OF L person5Cache_typed res] n ty
  have "\<exists>t. heap (snd (getRecordIdentifier (exampleEnv True) (Data pet9) True
                          (person5Cache True))) 1 = Some t \<and> tk_lid t = ''my-lid''"
    by auto
  with L f n person5Cache_typed [of True] show ?thesis
    by auto
qed

theorem lid_passthrough_counterexample:
  "coerceId (r_lid person5Other) = Some ''other-lid'' \<and>
   fst (getOrCreateRecordIdentifier (exampleEnv True) (Data person5Other) (person5Cache True))
     = Inr (Some 0) \<and>
   map_option tk_lid
     (heap (step (exampleEnv True) (GetOrCreate (Data person5Other)) (person5Cache True)) 0)
     = Some ''@ember-data:lid-person-5'' \<and>
   fst (getOrCreateRecordIdentifier (exampleEnv False) (Data person5Other) (person5Cache False))
     = Inr (Some 0) \<and>
   map_option tk_lid
     (heap (step (exampleEnv False) (GetOrCreate (Data person5Other)) (person5Cache False)) 0)
     = Some ''@ember-data:lid-person-5''"
  by (simp add: person5Other_def person5Cache_def run_defs)

section \<open>What every sequence of calls keeps\<close>

subsection \<open>The tables lead to identifiers of their own key and type\<close>

lemma fresh_address:
  assumes "tablesTyped c"
  shows "heap c (nextAddr c) = None"
    and "ko_lid (typeIndex c T) L \<noteq> Some (nextAddr c)"
    and "lids c L \<noteq> Some (nextAddr c)"
proof -
  from assms have a: "allocated c" and t: "lidTablesTyped c" and l: "lidsTyped c"
    by (simp_all add: tablesTyped_def)
  from a show h: "heap c (nextAddr c) = None"
    unfolding allocated_def by (metis domIff less_irrefl)
  from t h show "ko_lid (typeIndex c T) L \<noteq> Some (nextAddr c)"
    unfolding lidTablesTyped_def by (metis option.discI)
  from l h show "lids c L \<noteq> Some (nextAddr c)"
    unfolding lidsTyped_def by (metis option.discI)
qed

lemma tablesTyped_getTypeIndex [simp]: "tablesTyped (getTypeIndex T c) = tablesTyped c"
  by (simp add: tablesTyped_def allocated_def lidTablesTyped_def lidsTyped_def)

lemma tablesTyped_frame:
  assumes "tablesTyped c" "heap c' = heap c" "nextAddr c' = nextAddr c" "lids c' = lids c"
    and "\<And>T. ko_lid (typeIndex c' T) = ko_lid (typeIndex c T)"
  shows "tablesTyped c'"
  using assms by (simp add: tablesTyped_def allocated_def lidTablesTyped_def lidsTyped_def)

lemma populate_typed:
  assumes "tablesTyped c"
  shows "tablesTyped (snd (populate env T i L f c))"
proof -
  note fr = fresh_address [OF assms]
  from assms have a: "allocated c" and t: "lidTablesTyped c" and l: "lidsTyped c"
    by (simp_all add: tablesTyped_def)
  show ?thesis
    using a t l fr
    unfolding populate_def makeStableRecordIdentifier_def markStableIdentifier_def
      tablesTyped_def allocated_def lidTablesTyped_def lidsTyped_def
    by (auto simp: Let_def less_Suc_eq split: option.splits if_splits)
qed

lemma resolveResource_typed:
  assumes "tablesTyped c"
  shows "tablesTyped (snd (resolveResource env r sg c))"
proof -
  have g: "\<And>T n. tablesTyped (getTypeIndex T c\<lparr>generated := n\<rparr>)"
    using assms by (simp add: tablesTyped_def allocated_def lidTablesTyped_def lidsTyped_def)
  show ?thesis
    using assms g
    by (auto simp: resolveResource_def Let_def populate_typed split: option.splits)
qed

lemma getRecordIdentifier_typed:
  assumes "tablesTyped c"
  shows "tablesTyped (snd (getRecordIdentifier env rf sg c))"
  using assms
  by (auto simp: getRecordIdentifier_def resolveResource_typed split: ref.splits option.splits)

lemma createIdentifierForNewRecord_typed:
  assumes "tablesTyped c"
  shows "tablesTyped (snd (createIdentifierForNewRecord env data c))"
proof -
  note fr = fresh_address [OF assms]
  from assms have a: "allocated c" and t: "lidTablesTyped c" and l: "lidsTyped c"
    by (simp_all add: tablesTyped_def)
  show ?thesis
    using a t l fr
    unfolding createIdentifierForNewRecord_def makeStableRecordIdentifier_def
      markStableIdentifier_def tablesTyped_def allocated_def lidTablesTyped_def lidsTyped_def
    by (auto simp: Let_def less_Suc_eq split: option.splits if_splits)
qed

lemma forgetResolved_typed:
  assumes "tablesTyped c"
  shows "tablesTyped (snd (forgetResolved rf a c))"
  using assms
  unfolding forgetResolved_def unmarkStableIdentifier_def
    tablesTyped_def allocated_def lidTablesTyped_def lidsTyped_def
  by (auto simp: Let_def split: option.splits if_splits ref.splits)

lemma forgetRecordIdentifier_typed:
  assumes "tablesTyped c"
  shows "tablesTyped (snd (forgetRecordIdentifier env rf c))"
proof -
  have "tablesTyped (snd (getRecordIdentifier env rf True c))"
    using assms by (rule getRecordIdentifier_typed)
  then show ?thesis
    by (auto simp: forgetRecordIdentifier_def getOrCreateRecordIdentifier_def
          forgetResolved_typed split: prod.splits sum.splits option.splits)
qed

lemma detectMerge_typed:
  assumes "tablesTyped c"
  shows "tablesTyped (snd (detectMerge env a data newId c))"
  using assms by (auto simp: detectMerge_def Let_def split: option.splits)

lemma tablesTyped_same_keys:
  assumes "tablesTyped c"
    and "nextAddr c' = nextAddr c" and "lids c' = lids c"
    and "\<And>T. ko_lid (typeIndex c' T) = ko_lid (typeIndex c T)"
    and "\<And>b tb. heap c b = Some tb \<Longrightarrow>
           \<exists>tb'. heap c' b = Some tb' \<and> tk_lid tb' = tk_lid tb \<and> tk_type tb' = tk_type tb"
    and "dom (heap c') \<subseteq> dom (heap c)"
  shows "tablesTyped c'"
proof -
  from assms(1) have al: "allocated c" and lt: "lidTablesTyped c" and ls: "lidsTyped c"
    by (simp_all add: tablesTyped_def)
  have "allocated c'"
    using al assms(2,6) unfolding allocated_def by (metis subsetD)
  moreover have "lidTablesTyped c'"
    unfolding lidTablesTyped_def
  proof (intro allI impI)
    fix T L b
    assume "ko_lid (typeIndex c' T) L = Some b"
    then have "ko_lid (typeIndex c T) L = Some b"
      by (simp add: assms(4))
    with lt obtain tb where "heap c b = Some tb" "tk_lid tb = L" "typeKey (tk_type tb) = T"
      unfolding lidTablesTyped_def by blast
    with assms(5) [of b tb] show "\<exists>t. heap c' b = Some t \<and> tk_lid t = L \<and> typeKey (tk_type t) = T"
      by auto
  qed
  moreover have "lidsTyped c'"
    unfolding lidsTyped_def
  proof (intro allI impI)
    fix L b
    assume "lids c' L = Some b"
    then have "lids c L = Some b"
      by (simp add: assms(3))
    with ls obtain tb where "heap c b = Some tb" "tk_lid tb = L"
      unfolding lidsTyped_def by blast
    with assms(5) [of b tb] show "\<exists>t. heap c' b = Some t \<and> tk_lid t = L"
      by auto
  qed
  ultimately show ?thesis
    by (simp add: tablesTyped_def)
qed

lemma performRecordIdentifierUpdate_effect:
  "lids (snd (performRecordIdentifierUpdate env a data c)) = lids c \<and>
   nextAddr (snd (performRecordIdentifierUpdate env a data c)) = nextAddr c \<and>
   typeIndex (snd (performRecordIdentifierUpdate env a data c)) = typeIndex c \<and>
   marked (snd (performRecordIdentifierUpdate env a data c)) = marked c \<and>
   (heap (snd (performRecordIdentifierUpdate env a data c)) = heap c \<or>
    (\<exists>t. heap c a = Some t \<and>
         heap (snd (performRecordIdentifierUpdate env a data c))
           = (heap c)(a \<mapsto> t\<lparr>tk_id := coerceId (r_id data)\<rparr>)))"
  by (simp add: performRecordIdentifierUpdate_def Let_def split: option.splits)

lemma performRecordIdentifierUpdate_typed:
  assumes "tablesTyped c"
  shows "tablesTyped (snd (performRecordIdentifierUpdate env a data c))"
proof (rule tablesTyped_same_keys [OF assms])
  note e = performRecordIdentifierUpdate_effect [of env a data c]
  show "nextAddr (snd (performRecordIdentifierUpdate env a data c)) = nextAddr c"
    using e by simp
  show "lids (snd (performRecordIdentifierUpdate env a data c)) = lids c"
    using e by simp
  show "ko_lid (typeIndex (snd (performRecordIdentifierUpdate env a data c)) T)
          = ko_lid (typeIndex c T)" for T
    using e by simp
  show "\<exists>tb'. heap (snd (performRecordIdentifierUpdate env a data c)) b = Some tb' \<and>
              tk_lid tb' = tk_lid tb \<and> tk_type tb' = tk_type tb"
    if "heap c b = Some tb" for b tb
    using e that by (cases "b = a") auto
  show "dom (heap (snd (performRecordIdentifierUpdate env a data c))) \<subseteq> dom (heap c)"
    using e by (auto split: if_splits)
qed

lemma tablesTyped_id_table:
  assumes "tablesTyped c"
  shows "tablesTyped (setTypeIndex T ((typeIndex c T)\<lparr>ko_id := m\<rparr>) c)"
  using assms by (auto simp: tablesTyped_def allocated_def lidTablesTyped_def lidsTyped_def)

lemma updateResolved_typed:
  assumes "tablesTyped c"
  shows "tablesTyped (snd (snd (updateResolved env a data c)))"
proof -
  have p: "tablesTyped (snd (performRecordIdentifierUpdate env a data c))"
    using assms by (rule performRecordIdentifierUpdate_typed)
  have k: "\<And>c1 T m. tablesTyped c1 \<Longrightarrow>
             tablesTyped (setTypeIndex T ((typeIndex c1 T)\<lparr>ko_id := m\<rparr>) (getTypeIndex T c1))"
    using tablesTyped_id_table [of "getTypeIndex _ _"] by simp
  show ?thesis
    using assms p
    by (auto simp: updateResolved_def Let_def k
          split: option.splits prod.splits sum.splits)
qed

lemma keepIdentifier_typed:
  assumes "tablesTyped c"
  shows "tablesTyped (snd (snd (keepIdentifier T e data newId kept c)))"
proof -
  have k: "\<And>c1 T m. tablesTyped c1 \<Longrightarrow>
             tablesTyped (setTypeIndex T ((typeIndex c1 T)\<lparr>ko_id := m\<rparr>) c1)"
    by (rule tablesTyped_id_table)
  have k2: "\<And>c1 T m. tablesTyped c1 \<Longrightarrow>
             tablesTyped (setTypeIndex T ((typeIndex c1 T)\<lparr>ko_id := m\<rparr>) (getTypeIndex T c1))"
    using tablesTyped_id_table [of "getTypeIndex _ _"] by simp
  show ?thesis
    using assms
    by (auto simp: keepIdentifier_def Let_def k k2 simp del: typeIndex_setTypeIndex
          split: option.splits)
qed

lemma mergeRecordIdentifiers_typed:
  assumes "tablesTyped c"
  shows "tablesTyped (snd (snd (mergeRecordIdentifiers env T a e data newId c)))"
proof -
  define ab where "ab = (if merge c a e data = Some a then e else a)"
  define c1 where "c1 = c\<lparr>mergeLog := mergeLog c @ [(a, e, data)]\<rparr>"
  have "tablesTyped c1"
    using assms
    by (simp add: c1_def tablesTyped_def allocated_def lidTablesTyped_def lidsTyped_def)
  then have f: "tablesTyped (snd (forgetRecordIdentifier env (Token ab) c1))"
    by (rule forgetRecordIdentifier_typed)
  have "mergeRecordIdentifiers env T a e data newId c =
          (case forgetRecordIdentifier env (Token ab) c1 of
             (Inl x, c2) \<Rightarrow> (Inl x, data, c2)
           | (Inr u, c2) \<Rightarrow> keepIdentifier T e data newId (merge c a e data) c2)"
    by (simp add: mergeRecordIdentifiers_def Let_def ab_def c1_def)
  with f show ?thesis
    by (auto simp: keepIdentifier_typed split: prod.splits sum.splits)
qed

lemma mergeDetected_typed:
  assumes "tablesTyped c"
  shows "tablesTyped (snd (snd (mergeDetected env a data newId detected c)))"
proof -
  have g: "tablesTyped (snd (getOrCreateRecordIdentifier env (Data (data\<lparr>r_lid := Absent\<rparr>)) c))"
    using assms by (simp add: getOrCreateRecordIdentifier_def getRecordIdentifier_typed)
  have m: "\<And>c3 T e. tablesTyped c3 \<Longrightarrow>
      tablesTyped (snd (snd (mergeRecordIdentifiers env T a e data newId (getTypeIndex T c3))))"
    by (simp add: mergeRecordIdentifiers_typed)
  show ?thesis
    using assms g
    by (auto simp: mergeDetected_def m split: option.splits prod.splits sum.splits if_splits)
qed

lemma updateRecordIdentifier_typed:
  assumes "tablesTyped c"
  shows "tablesTyped (snd (snd (updateRecordIdentifier env rf data c)))"
proof -
  obtain r1 c1 where g: "getOrCreateRecordIdentifier env rf c = (r1, c1)"
    by force
  have t1: "tablesTyped c1"
    using getRecordIdentifier_typed [OF assms, of env rf True] g
    by (simp add: getOrCreateRecordIdentifier_def)
  show ?thesis
  proof (cases r1)
    case (Inl x)
    with g t1 show ?thesis
      by (simp add: updateRecordIdentifier_def)
  next
    case (Inr o1)
    show ?thesis
    proof (cases o1)
      case None
      with Inr g t1 show ?thesis
        by (simp add: updateRecordIdentifier_def)
    next
      case (Some a)
      define newId where "newId = (if hasKey (r_id data) then coerceId (r_id data) else None)"
      obtain r2 c2 where d: "detectMerge env a data newId c1 = (r2, c2)"
        by force
      have t2: "tablesTyped c2"
        using detectMerge_typed [OF t1, of env a data newId] d by simp
      show ?thesis
      proof (cases r2)
        case (Inl x)
        with Some Inr g d t2 show ?thesis
          by (simp add: updateRecordIdentifier_def newId_def)
      next
        case det: (Inr detected)
        obtain r3 d3 c3 where m: "mergeDetected env a data newId detected c2 = (r3, d3, c3)"
          by (metis prod.collapse)
        have t3: "tablesTyped c3"
          using mergeDetected_typed [OF t2, of env a data newId detected] m by simp
        show ?thesis
          using Some Inr g d det m t3 updateResolved_typed [OF t3]
          by (cases r3) (simp_all add: updateRecordIdentifier_def newId_def)
      qed
    qed
  qed
qed

lemma step_typed:
  assumes "tablesTyped c"
  shows "tablesTyped (step env x c)"
  using assms
  by (cases x)
     (simp_all add: getOrCreateRecordIdentifier_def peekRecordIdentifier_def
        getRecordIdentifier_typed createIdentifierForNewRecord_typed
        updateRecordIdentifier_typed forgetRecordIdentifier_typed)

lemma run_typed:
  assumes "tablesTyped c"
  shows "tablesTyped (run env xs c)"
  using assms by (induction xs arbitrary: c) (simp_all add: step_typed)

lemma newIdentifierCache_typed: "tablesTyped (configureMerge m (newIdentifierCache env g))"
  by (simp add: tablesTyped_def allocated_def lidTablesTyped_def lidsTyped_def
        configureMerge_def newIdentifierCache_def emptyLogs_def emptyIndex_def typeIndex_def)

subsection \<open>The lists of the types and the types of the identifiers\<close>

lemma splice1_distinct:
  assumes "distinct xs"
  shows "distinct (splice1 xs i)"
proof (cases i)
  case None
  with assms show ?thesis
    by (simp add: splice1_def distinct_butlast)
next
  case (Some a)
  have "set (take a xs) \<inter> set (drop (Suc a) xs) = {}"
    using assms by (simp add: set_take_disj_set_drop_if_distinct)
  with assms Some show ?thesis
    by (simp add: splice1_def)
qed

lemma splice1_in: "x \<in> set (splice1 xs i) \<Longrightarrow> x \<in> set xs"
  by (cases i) (auto simp: splice1_def dest: in_set_butlastD in_set_takeD in_set_dropD)

lemma shaped_getTypeIndex [simp]: "shaped env (getTypeIndex T c) = shaped env c"
  by (simp add: shaped_def listsFresh_def namedTypes_def)

lemma shaped_frame:
  assumes "shaped env c" "heap c' = heap c" "nextAddr c' = nextAddr c"
    and "\<And>T. allIdentifiers (typeIndex c' T) = allIdentifiers (typeIndex c T)"
  shows "shaped env c'"
  using assms by (simp add: shaped_def listsFresh_def namedTypes_def)

lemma populate_shaped:
  assumes "shaped env c" "DEBUG env \<longrightarrow> (\<exists>s. type = Str s)"
  shows "shaped env (snd (populate env type i L f c))"
  using assms
  unfolding populate_def makeStableRecordIdentifier_def markStableIdentifier_def
    shaped_def listsFresh_def namedTypes_def
  by (auto simp: Let_def less_Suc_eq split: option.splits if_splits)

lemma resolveResource_shaped:
  assumes "shaped env c"
  shows "shaped env (snd (resolveResource env r sg c))"
proof -
  have g: "\<And>T n. shaped env (getTypeIndex T c\<lparr>generated := n\<rparr>)"
    using assms by (simp add: shaped_def listsFresh_def namedTypes_def)
  have p: "\<And>T n i L f s. r_type r = Str s \<Longrightarrow> s \<noteq> [] \<Longrightarrow>
             shaped env (snd (populate env (normalized env (r_type r)) i L f
                                (getTypeIndex T c\<lparr>generated := n\<rparr>)))"
    using g by (simp add: populate_shaped)
  have q: "\<And>T n i L f. \<not> DEBUG env \<Longrightarrow>
             shaped env (snd (populate env (normalized env (r_type r)) i L f
                                (getTypeIndex T c\<lparr>generated := n\<rparr>)))"
    using g by (simp add: populate_shaped)
  show ?thesis
    using assms g p q
    by (auto simp: resolveResource_def Let_def hasKey_def isNonEmptyString_def
          split: option.splits field.splits)
qed

lemma getRecordIdentifier_shaped:
  assumes "shaped env c"
  shows "shaped env (snd (getRecordIdentifier env rf sg c))"
  using assms
  by (auto simp: getRecordIdentifier_def resolveResource_shaped split: ref.splits option.splits)

lemma createIdentifierForNewRecord_shaped:
  assumes "shaped env c"
  shows "shaped env (snd (createIdentifierForNewRecord env data c))"
  using assms
  unfolding createIdentifierForNewRecord_def makeStableRecordIdentifier_def
    markStableIdentifier_def shaped_def listsFresh_def namedTypes_def
  by (auto simp: Let_def less_Suc_eq split: option.splits if_splits)

lemma forgetResolved_shaped:
  assumes "shaped env c"
  shows "shaped env (snd (forgetResolved rf a c))"
  using assms
  unfolding forgetResolved_def unmarkStableIdentifier_def shaped_def listsFresh_def namedTypes_def
  by (auto simp: Let_def splice1_distinct subset_iff dest: splice1_in
        split: option.splits if_splits ref.splits)

lemma forgetRecordIdentifier_shaped:
  assumes "shaped env c"
  shows "shaped env (snd (forgetRecordIdentifier env rf c))"
proof -
  have "shaped env (snd (getRecordIdentifier env rf True c))"
    using assms by (rule getRecordIdentifier_shaped)
  then show ?thesis
    by (auto simp: forgetRecordIdentifier_def getOrCreateRecordIdentifier_def
          forgetResolved_shaped split: prod.splits sum.splits option.splits)
qed

lemma detectMerge_shaped:
  assumes "shaped env c"
  shows "shaped env (snd (detectMerge env a data newId c))"
  using assms by (auto simp: detectMerge_def Let_def split: option.splits)

lemma performRecordIdentifierUpdate_shaped:
  assumes "shaped env c"
  shows "shaped env (snd (performRecordIdentifierUpdate env a data c))"
proof -
  note e = performRecordIdentifierUpdate_effect [of env a data c]
  have "listsFresh (snd (performRecordIdentifierUpdate env a data c))"
    using assms e by (simp add: shaped_def listsFresh_def)
  moreover have "namedTypes (snd (performRecordIdentifierUpdate env a data c))"
    if "namedTypes c"
    using e that unfolding namedTypes_def by (auto split: if_splits)
  ultimately show ?thesis
    using assms by (simp add: shaped_def)
qed

lemma shaped_id_table:
  assumes "shaped env c"
  shows "shaped env (setTypeIndex T ((typeIndex c T)\<lparr>ko_id := m\<rparr>) c)"
  using assms by (auto simp: shaped_def listsFresh_def namedTypes_def)

lemma updateResolved_shaped:
  assumes "shaped env c"
  shows "shaped env (snd (snd (updateResolved env a data c)))"
proof -
  have p: "shaped env (snd (performRecordIdentifierUpdate env a data c))"
    using assms by (rule performRecordIdentifierUpdate_shaped)
  have k: "\<And>c1 T m. shaped env c1 \<Longrightarrow>
             shaped env (setTypeIndex T ((typeIndex c1 T)\<lparr>ko_id := m\<rparr>) (getTypeIndex T c1))"
    using shaped_id_table [of env "getTypeIndex _ _"] by simp
  show ?thesis
    using assms p
    by (auto simp: updateResolved_def Let_def k
          split: option.splits prod.splits sum.splits)
qed

lemma keepIdentifier_shaped:
  assumes "shaped env c"
  shows "shaped env (snd (snd (keepIdentifier T e data newId kept c)))"
proof -
  have k: "\<And>c1 T m. shaped env c1 \<Longrightarrow>
             shaped env (setTypeIndex T ((typeIndex c1 T)\<lparr>ko_id := m\<rparr>) c1)"
    by (rule shaped_id_table)
  have k2: "\<And>c1 T m. shaped env c1 \<Longrightarrow>
             shaped env (setTypeIndex T ((typeIndex c1 T)\<lparr>ko_id := m\<rparr>) (getTypeIndex T c1))"
    using shaped_id_table [of env "getTypeIndex _ _"] by simp
  show ?thesis
    using assms
    by (auto simp: keepIdentifier_def Let_def k k2 simp del: typeIndex_setTypeIndex
          split: option.splits)
qed

lemma mergeRecordIdentifiers_shaped:
  assumes "shaped env c"
  shows "shaped env (snd (snd (mergeRecordIdentifiers env T a e data newId c)))"
proof -
  define ab where "ab = (if merge c a e data = Some a then e else a)"
  define c1 where "c1 = c\<lparr>mergeLog := mergeLog c @ [(a, e, data)]\<rparr>"
  have "shaped env c1"
    using assms by (simp add: c1_def shaped_def listsFresh_def namedTypes_def)
  then have f: "shaped env (snd (forgetRecordIdentifier env (Token ab) c1))"
    by (rule forgetRecordIdentifier_shaped)
  have "mergeRecordIdentifiers env T a e data newId c =
          (case forgetRecordIdentifier env (Token ab) c1 of
             (Inl x, c2) \<Rightarrow> (Inl x, data, c2)
           | (Inr u, c2) \<Rightarrow> keepIdentifier T e data newId (merge c a e data) c2)"
    by (simp add: mergeRecordIdentifiers_def Let_def ab_def c1_def)
  with f show ?thesis
    by (auto simp: keepIdentifier_shaped split: prod.splits sum.splits)
qed

lemma mergeDetected_shaped:
  assumes "shaped env c"
  shows "shaped env (snd (snd (mergeDetected env a data newId detected c)))"
proof -
  have g: "shaped env (snd (getOrCreateRecordIdentifier env (Data (data\<lparr>r_lid := Absent\<rparr>)) c))"
    using assms by (simp add: getOrCreateRecordIdentifier_def getRecordIdentifier_shaped)
  have m: "\<And>c3 T e. shaped env c3 \<Longrightarrow>
      shaped env (snd (snd (mergeRecordIdentifiers env T a e data newId (getTypeIndex T c3))))"
    by (simp add: mergeRecordIdentifiers_shaped)
  show ?thesis
    using assms g
    by (auto simp: mergeDetected_def m split: option.splits prod.splits sum.splits if_splits)
qed

lemma updateRecordIdentifier_shaped:
  assumes "shaped env c"
  shows "shaped env (snd (snd (updateRecordIdentifier env rf data c)))"
proof -
  obtain r1 c1 where g: "getOrCreateRecordIdentifier env rf c = (r1, c1)"
    by force
  have t1: "shaped env c1"
    using getRecordIdentifier_shaped [OF assms, of rf True] g
    by (simp add: getOrCreateRecordIdentifier_def)
  show ?thesis
  proof (cases r1)
    case (Inl x)
    with g t1 show ?thesis
      by (simp add: updateRecordIdentifier_def)
  next
    case (Inr o1)
    show ?thesis
    proof (cases o1)
      case None
      with Inr g t1 show ?thesis
        by (simp add: updateRecordIdentifier_def)
    next
      case (Some a)
      define newId where "newId = (if hasKey (r_id data) then coerceId (r_id data) else None)"
      obtain r2 c2 where d: "detectMerge env a data newId c1 = (r2, c2)"
        by force
      have t2: "shaped env c2"
        using detectMerge_shaped [OF t1, of a data newId] d by simp
      show ?thesis
      proof (cases r2)
        case (Inl x)
        with Some Inr g d t2 show ?thesis
          by (simp add: updateRecordIdentifier_def newId_def)
      next
        case det: (Inr detected)
        obtain r3 d3 c3 where m: "mergeDetected env a data newId detected c2 = (r3, d3, c3)"
          by (metis prod.collapse)
        have t3: "shaped env c3"
          using mergeDetected_shaped [OF t2, of a data newId detected] m by simp
        show ?thesis
          using Some Inr g d det m t3 updateResolved_shaped [OF t3]
          by (cases r3) (simp_all add: updateRecordIdentifier_def newId_def)
      qed
    qed
  qed
qed

lemma step_shaped:
  assumes "shaped env c"
  shows "shaped env (step env x c)"
  using assms
  by (cases x)
     (simp_all add: getOrCreateRecordIdentifier_def peekRecordIdentifier_def
        getRecordIdentifier_shaped createIdentifierForNewRecord_shaped
        updateRecordIdentifier_shaped forgetRecordIdentifier_shaped)

lemma run_shaped:
  assumes "shaped env c"
  shows "shaped env (run env xs c)"
  using assms by (induction xs arbitrary: c) (simp_all add: step_shaped)

lemma newIdentifierCache_shaped: "shaped env (configureMerge m (newIdentifierCache env g))"
  by (simp add: shaped_def listsFresh_def namedTypes_def
        configureMerge_def newIdentifierCache_def emptyLogs_def emptyIndex_def typeIndex_def)

text \<open>
  So in every cache that the operations reach, the tables lead to identifiers of their
  own key and type, and no identifier is twice in a list; in a DEBUG build the type of
  an identifier is the name of its index.
\<close>

lemma reachable_typed:
  "tablesTyped (run env ops (configureMerge m (newIdentifierCache env g)))"
  "listsFresh (run env ops (configureMerge m (newIdentifierCache env g)))"
  "DEBUG env \<Longrightarrow> lidTablesNamed (run env ops (configureMerge m (newIdentifierCache env g)))"
proof -
  let ?c = "run env ops (configureMerge m (newIdentifierCache env g))"
  show t: "tablesTyped ?c"
    using newIdentifierCache_typed by (rule run_typed)
  have s: "shaped env ?c"
    using newIdentifierCache_shaped by (rule run_shaped)
  then show "listsFresh ?c"
    by (simp add: shaped_def)
  show "lidTablesNamed ?c" if "DEBUG env"
    unfolding lidTablesNamed_def
  proof (intro allI impI)
    fix T L a
    assume "ko_lid (typeIndex ?c T) L = Some a"
    with t obtain tok where h: "heap ?c a = Some tok" "tk_lid tok = L" "typeKey (tk_type tok) = T"
      unfolding tablesTyped_def lidTablesTyped_def by blast
    from s that h(1) obtain s where "tk_type tok = Str s"
      unfolding shaped_def namedTypes_def by blast
    with h show "\<exists>t. heap ?c a = Some t \<and> tk_lid t = L \<and> tk_type t = Str T"
      by simp
  qed
qed

subsection \<open>DEBUG builds: the global table agrees with the types' tables\<close>

lemma tablesTyped_logs [simp]:
  "tablesTyped (c\<lparr>warnLog := x1\<rparr>) = tablesTyped c"
  "tablesTyped (c\<lparr>updateLog := x2\<rparr>) = tablesTyped c"
  "tablesTyped (c\<lparr>forgetLog := x3\<rparr>) = tablesTyped c"
  "tablesTyped (c\<lparr>mergeLog := x4\<rparr>) = tablesTyped c"
  "tablesTyped (c\<lparr>generated := x5\<rparr>) = tablesTyped c"
  "tablesTyped (c\<lparr>marked := x6\<rparr>) = tablesTyped c"
  by (simp_all add: tablesTyped_def allocated_def lidTablesTyped_def lidsTyped_def)

lemma tablesAgree_getTypeIndex [simp]: "tablesAgree (getTypeIndex T c) = tablesAgree c"
  by (simp add: tablesAgree_def lidTablesAgree_def idTablesLive_def)

lemma tablesAgree_logs [simp]:
  "tablesAgree (c\<lparr>warnLog := x1\<rparr>) = tablesAgree c"
  "tablesAgree (c\<lparr>updateLog := x2\<rparr>) = tablesAgree c"
  "tablesAgree (c\<lparr>forgetLog := x3\<rparr>) = tablesAgree c"
  "tablesAgree (c\<lparr>mergeLog := x4\<rparr>) = tablesAgree c"
  "tablesAgree (c\<lparr>generated := x5\<rparr>) = tablesAgree c"
  "tablesAgree (c\<lparr>marked := x6\<rparr>) = tablesAgree c"
  by (simp_all add: tablesAgree_def lidTablesAgree_def idTablesLive_def)

lemma populate_found:
  assumes "heap c b = Some tb"
  shows "populate env T i L (Some b) c =
           (Inr (Some b),
            (case tk_id tb of
               None \<Rightarrow> c
             | Some j \<Rightarrow>
                 setTypeIndex (typeKey T)
                   ((typeIndex c (typeKey T))\<lparr>ko_id := (ko_id (typeIndex c (typeKey T)))(j \<mapsto> b)\<rparr>) c))"
  using assms by (simp add: populate_def Let_def split: option.splits)

lemma populate_refused:
  assumes "DEBUG env" "lids c L \<noteq> None"
  shows "populate env T i L None c =
           (Inl TypeChanged,
            c\<lparr>heap := (heap c)(nextAddr c \<mapsto> \<lparr>tk_lid = L, tk_id = i, tk_type = T\<rparr>),
              nextAddr := Suc (nextAddr c), marked := insert (nextAddr c) (marked c)\<rparr>)"
  using assms
  by (auto simp: populate_def makeStableRecordIdentifier_def markStableIdentifier_def Let_def)

lemma populate_new:
  assumes "DEBUG env \<longrightarrow> lids c L = None" and c': "c' = snd (populate env T i L None c)"
  shows "fst (populate env T i L None c) = Inr (Some (nextAddr c))"
    and "heap c' = (heap c)(nextAddr c \<mapsto> \<lparr>tk_lid = L, tk_id = i, tk_type = T\<rparr>)"
    and "nextAddr c' = Suc (nextAddr c)"
    and "lids c' = (lids c)(L \<mapsto> nextAddr c)"
    and "ko_lid (typeIndex c' K)
           = (if K = typeKey T then (ko_lid (typeIndex c K))(L \<mapsto> nextAddr c)
              else ko_lid (typeIndex c K))"
    and "ko_id (typeIndex c' K)
           = (if K = typeKey T
              then (case i of None \<Rightarrow> ko_id (typeIndex c K)
                    | Some j \<Rightarrow> (ko_id (typeIndex c K))(j \<mapsto> nextAddr c))
              else ko_id (typeIndex c K))"
    and "allIdentifiers (typeIndex c' K)
           = (if K = typeKey T then allIdentifiers (typeIndex c K) @ [nextAddr c]
              else allIdentifiers (typeIndex c K))"
  using assms(1) unfolding c'
  by (auto simp: populate_def makeStableRecordIdentifier_def markStableIdentifier_def Let_def
        split: option.splits)

lemma populate_agree:
  assumes inv: "tablesAgree c" and dbg: "DEBUG env"
    and f: "f = ko_lid (typeIndex c (typeKey T)) L"
  shows "tablesAgree (snd (populate env T i L f c))"
proof -
  from inv have ty: "tablesTyped c" and ag: "lidTablesAgree c" and lv: "idTablesLive c"
    by (simp_all add: tablesAgree_def)
  note fr = fresh_address [OF ty]
  from ty have lt: "lidTablesTyped c"
    by (simp add: tablesTyped_def)
  define c' where "c' = snd (populate env T i L f c)"
  have ty': "tablesTyped c'"
    unfolding c'_def using ty by (rule populate_typed)
  have old: "\<exists>t. heap c b = Some t \<and> typeKey (tk_type t) = K \<and> tk_id t = Some j \<and>
                 lids c (tk_lid t) = Some b"
    if "ko_id (typeIndex c K) j = Some b" for K j b
    using lv that unfolding idTablesLive_def by blast
  have "lidTablesAgree c' \<and> idTablesLive c'"
  proof (cases f)
    case (Some b)
    with f lt ag obtain tb where tb: "heap c b = Some tb" "tk_lid tb = L"
      "typeKey (tk_type tb) = typeKey T" "lids c L = Some b"
      unfolding lidTablesTyped_def lidTablesAgree_def by metis
    note e = populate_found [OF tb(1), of env T i L]
    show ?thesis
    proof (cases "tk_id tb")
      case None
      with e Some ag lv show ?thesis
        by (simp add: c'_def)
    next
      case j: (Some j)
      have 1: "lidTablesAgree c'"
        using ag unfolding lidTablesAgree_def c'_def Some e j by simp
      have 2: "idTablesLive c'"
        unfolding idTablesLive_def
      proof (intro allI impI)
        fix K j' x
        assume "ko_id (typeIndex c' K) j' = Some x"
        then have "(K = typeKey T \<and> j' = j \<and> x = b) \<or> ko_id (typeIndex c K) j' = Some x"
          unfolding c'_def Some e j by (auto split: if_splits)
        then show "\<exists>t. heap c' x = Some t \<and> typeKey (tk_type t) = K \<and> tk_id t = Some j' \<and>
                     lids c' (tk_lid t) = Some x"
        proof
          assume "K = typeKey T \<and> j' = j \<and> x = b"
          with tb j show ?thesis
            unfolding c'_def Some e by simp
        next
          assume "ko_id (typeIndex c K) j' = Some x"
          from old [OF this] show ?thesis
            unfolding c'_def Some e j by simp
        qed
      qed
      from 1 2 show ?thesis ..
    qed
  next
    case None
    show ?thesis
    proof (cases "lids c L")
      case l: (Some b)
      then have e: "c' = c\<lparr>heap := (heap c)(nextAddr c \<mapsto> \<lparr>tk_lid = L, tk_id = i, tk_type = T\<rparr>),
                        nextAddr := Suc (nextAddr c), marked := insert (nextAddr c) (marked c)\<rparr>"
        unfolding c'_def None using dbg by (simp add: populate_refused)
      have 1: "lidTablesAgree c'"
        using ag unfolding lidTablesAgree_def e by simp
      have 2: "idTablesLive c'"
        unfolding idTablesLive_def
      proof (intro allI impI)
        fix K j' x
        assume "ko_id (typeIndex c' K) j' = Some x"
        then have "ko_id (typeIndex c K) j' = Some x"
          by (simp add: e)
        from old [OF this] obtain t where t: "heap c x = Some t" "typeKey (tk_type t) = K"
          "tk_id t = Some j'" "lids c (tk_lid t) = Some x"
          by blast
        with fr(1) have "x \<noteq> nextAddr c"
          by auto
        with t show "\<exists>t. heap c' x = Some t \<and> typeKey (tk_type t) = K \<and> tk_id t = Some j' \<and>
                     lids c' (tk_lid t) = Some x"
          by (simp add: e)
      qed
      from 1 2 show ?thesis ..
    next
      case l: None
      then have "DEBUG env \<longrightarrow> lids c L = None"
        by simp
      note e = populate_new(2-6) [OF this, of c' T i] 
      have c'': "c' = snd (populate env T i L None c)"
        by (simp add: c'_def None)
      note e = e [OF c'']
      have 1: "lidTablesAgree c'"
        unfolding lidTablesAgree_def
      proof (intro allI impI)
        fix K L' x
        assume "ko_lid (typeIndex c' K) L' = Some x"
        then have "(L' = L \<and> x = nextAddr c) \<or> (L' \<noteq> L \<and> ko_lid (typeIndex c K) L' = Some x)"
          using l ag unfolding lidTablesAgree_def by (auto simp: e split: if_splits)
        then show "lids c' L' = Some x"
          using ag unfolding lidTablesAgree_def by (auto simp: e)
      qed
      have 2: "idTablesLive c'"
        unfolding idTablesLive_def
      proof (intro allI impI)
        fix K j' x
        assume "ko_id (typeIndex c' K) j' = Some x"
        then have "(K = typeKey T \<and> i = Some j' \<and> x = nextAddr c) \<or>
                   ko_id (typeIndex c K) j' = Some x"
          by (auto simp: e split: if_splits option.splits)
        then show "\<exists>t. heap c' x = Some t \<and> typeKey (tk_type t) = K \<and> tk_id t = Some j' \<and>
                     lids c' (tk_lid t) = Some x"
        proof
          assume "K = typeKey T \<and> i = Some j' \<and> x = nextAddr c"
          then show ?thesis
            by (simp add: e)
        next
          assume "ko_id (typeIndex c K) j' = Some x"
          from old [OF this] obtain t where t: "heap c x = Some t" "typeKey (tk_type t) = K"
            "tk_id t = Some j'" "lids c (tk_lid t) = Some x"
            by blast
          with fr(1) l have "x \<noteq> nextAddr c" "tk_lid t \<noteq> L"
            by auto
          with t show ?thesis
            by (simp add: e)
        qed
      qed
      from 1 2 show ?thesis ..
    qed
  qed
  with ty' show ?thesis
    by (simp add: tablesAgree_def c'_def)
qed

lemma populate_live:
  assumes inv: "tablesAgree c" and dbg: "DEBUG env"
    and f: "f = ko_lid (typeIndex c (typeKey T)) L"
    and res: "populate env T i L f c = (Inr (Some a), c')"
  shows "\<exists>t. heap c' a = Some t \<and> lids c' (tk_lid t) = Some a"
proof (cases f)
  case (Some b)
  from inv have ag: "lidTablesAgree c" and lt: "lidTablesTyped c"
    by (simp_all add: tablesAgree_def tablesTyped_def)
  from Some f lt ag obtain tb where tb: "heap c b = Some tb" "tk_lid tb = L" "lids c L = Some b"
    unfolding lidTablesTyped_def lidTablesAgree_def by metis
  from populate_found [OF tb(1), of env T i L] res Some tb show ?thesis
    by (auto split: option.splits)
next
  case None
  show ?thesis
  proof (cases "lids c L")
    case (Some b)
    with dbg res None show ?thesis
      by (simp add: populate_refused)
  next
    case l: None
    then have "DEBUG env \<longrightarrow> lids c L = None"
      by simp
    from populate_new(1,2,4) [OF this, of c' T i] res None show ?thesis
      by simp
  qed
qed

lemma resolveResource_agree:
  assumes inv: "tablesAgree c" and dbg: "DEBUG env"
  shows "tablesAgree (snd (resolveResource env r sg c))"
proof -
  have c2: "tablesAgree (getTypeIndex K c\<lparr>generated := n\<rparr>)" for K n
    using inv by simp
  have p1: "tablesAgree (snd (populate env T i L (ko_lid (typeIndex c (typeKey T)) L)
                                (getTypeIndex (typeKey T) c\<lparr>generated := n\<rparr>)))" for T i L n
    using populate_agree [where c = "getTypeIndex (typeKey T) c\<lparr>generated := n\<rparr>" and env = env
        and f = "ko_lid (typeIndex c (typeKey T)) L" and T = T and L = L and i = i] c2 dbg
    by simp
  have p2: "ko_lid (typeIndex c (typeKey T)) L = None \<Longrightarrow>
            tablesAgree (snd (populate env T i L None (getTypeIndex (typeKey T) c\<lparr>generated := n\<rparr>)))"
    for T i L n
    using populate_agree [where c = "getTypeIndex (typeKey T) c\<lparr>generated := n\<rparr>" and env = env
        and f = None and T = T and L = L and i = i] c2 dbg
    by simp
  show ?thesis
    using inv p1 p2
    by (auto simp: resolveResource_def Let_def split: option.splits)
qed

lemma resolveResource_live:
  assumes inv: "tablesAgree c" and dbg: "DEBUG env"
    and res: "resolveResource env r sg c = (Inr (Some a), c')"
  shows "\<exists>t. heap c' a = Some t \<and> lids c' (tk_lid t) = Some a"
proof -
  from inv have ag: "lidTablesAgree c" and lt: "lidTablesTyped c" and ls: "lidsTyped c"
    and lv: "idTablesLive c"
    by (simp_all add: tablesAgree_def tablesTyped_def)
  have c2: "tablesAgree (getTypeIndex K c\<lparr>generated := n\<rparr>)" for K n
    using inv by simp
  have p1: "populate env T i L (ko_lid (typeIndex c (typeKey T)) L)
              (getTypeIndex (typeKey T) c\<lparr>generated := n\<rparr>) = (Inr (Some a), c')
            \<Longrightarrow> \<exists>t. heap c' a = Some t \<and> lids c' (tk_lid t) = Some a" for T i L n
    using populate_live [where c = "getTypeIndex (typeKey T) c\<lparr>generated := n\<rparr>" and env = env
        and f = "ko_lid (typeIndex c (typeKey T)) L" and T = T and L = L and i = i and a = a and c' = c']
      c2 dbg
    by simp
  have p2: "ko_lid (typeIndex c (typeKey T)) L = None \<Longrightarrow>
            populate env T i L None (getTypeIndex (typeKey T) c\<lparr>generated := n\<rparr>) = (Inr (Some a), c')
            \<Longrightarrow> \<exists>t. heap c' a = Some t \<and> lids c' (tk_lid t) = Some a" for T i L n
    using populate_live [where c = "getTypeIndex (typeKey T) c\<lparr>generated := n\<rparr>" and env = env
        and f = None and T = T and L = L and i = i and a = a and c' = c'] c2 dbg
    by simp
  have byLids: "lids c L = Some a \<Longrightarrow> \<exists>t. heap c a = Some t \<and> lids c (tk_lid t) = Some a" for L
    using ls unfolding lidsTyped_def by blast
  have byLid: "ko_lid (typeIndex c T) L = Some a \<Longrightarrow>
               \<exists>t. heap c a = Some t \<and> lids c (tk_lid t) = Some a" for T L
    using ag lt unfolding lidTablesAgree_def lidTablesTyped_def by blast
  have byId: "ko_id (typeIndex c T) i = Some a \<Longrightarrow>
              \<exists>t. heap c a = Some t \<and> lids c (tk_lid t) = Some a" for T i
    using lv unfolding idTablesLive_def by blast
  show ?thesis
    using res p1 p2 byLids byLid byId
    by (auto simp: resolveResource_def Let_def fromMap_def split: option.splits if_splits)
qed

lemma getRecordIdentifier_agree:
  assumes "tablesAgree c" "DEBUG env"
  shows "tablesAgree (snd (getRecordIdentifier env rf sg c))"
  using assms
  by (auto simp: getRecordIdentifier_def resolveResource_agree split: ref.splits option.splits)

lemma getRecordIdentifier_live:
  assumes inv: "tablesAgree c" and dbg: "DEBUG env"
    and res: "getRecordIdentifier env rf sg c = (Inr (Some a), c')"
  shows "\<exists>t. heap c' a = Some t \<and> lids c' (tk_lid t) = Some a"
proof (cases "isStableIdentifier c rf")
  case True
  with res dbg show ?thesis
    by (auto simp: getRecordIdentifier_def split: ref.splits option.splits if_splits)
next
  case False
  with res obtain r where "resolveResource env r sg c = (Inr (Some a), c')"
    by (auto simp: getRecordIdentifier_def split: option.splits)
  with inv dbg show ?thesis
    by (rule resolveResource_live)
qed

lemma createIdentifierForNewRecord_agree:
  assumes inv: "tablesAgree c" and dbg: "DEBUG env"
  shows "tablesAgree (snd (createIdentifierForNewRecord env data c))"
proof -
  from inv have ty: "tablesTyped c" and ag: "lidTablesAgree c" and lv: "idTablesLive c"
    by (simp_all add: tablesAgree_def)
  note fr = fresh_address [OF ty]
  have ty': "tablesTyped (snd (createIdentifierForNewRecord env data c))"
    using ty by (rule createIdentifierForNewRecord_typed)
  have ag': "lidTablesAgree (snd (createIdentifierForNewRecord env data c))"
    using ag fr dbg
    unfolding createIdentifierForNewRecord_def makeStableRecordIdentifier_def
      markStableIdentifier_def lidTablesAgree_def
    by (auto simp: Let_def split: option.splits if_splits)
  have lv': "idTablesLive (snd (createIdentifierForNewRecord env data c))"
    using lv fr dbg
    unfolding createIdentifierForNewRecord_def makeStableRecordIdentifier_def
      markStableIdentifier_def idTablesLive_def
    apply (auto simp: Let_def split: option.splits if_splits)
    apply (blast | metis option.discI option.inject)+
    done
  from ty' ag' lv' show ?thesis
    by (simp add: tablesAgree_def)
qed

lemma forgetResolved_effect:
  assumes "heap c a = Some t"
  shows "lids (snd (forgetResolved rf a c)) = (lids c)(tk_lid t := None)"
    and "heap (snd (forgetResolved rf a c)) = heap c"
    and "nextAddr (snd (forgetResolved rf a c)) = nextAddr c"
    and "ko_lid (typeIndex (snd (forgetResolved rf a c)) T)
           = (if T = typeKey (tk_type t) then (ko_lid (typeIndex c T))(tk_lid t := None)
              else ko_lid (typeIndex c T))"
    and "ko_id (typeIndex (snd (forgetResolved rf a c)) T)
           = (if T = typeKey (tk_type t)
              then (case tk_id t of None \<Rightarrow> ko_id (typeIndex c T)
                    | Some i \<Rightarrow> (ko_id (typeIndex c T))(i := None))
              else ko_id (typeIndex c T))"
  using assms
  by (simp_all add: forgetResolved_def unmarkStableIdentifier_def Let_def
        split: option.splits ref.splits)

lemma forgetResolved_agree:
  assumes inv: "tablesAgree c" and h: "heap c a = Some t" and live: "lids c (tk_lid t) = Some a"
  shows "tablesAgree (snd (forgetResolved rf a c))"
proof -
  from inv have ty: "tablesTyped c" and ag: "lidTablesAgree c" and lv: "idTablesLive c"
    by (simp_all add: tablesAgree_def)
  from ty have lt: "lidTablesTyped c"
    by (simp add: tablesTyped_def)
  note e = forgetResolved_effect [OF h, of rf]
  have ty': "tablesTyped (snd (forgetResolved rf a c))"
    using ty by (rule forgetResolved_typed)
  have ag': "lidTablesAgree (snd (forgetResolved rf a c))"
    unfolding lidTablesAgree_def
  proof (intro allI impI)
    fix T L b
    assume "ko_lid (typeIndex (snd (forgetResolved rf a c)) T) L = Some b"
    then have old: "ko_lid (typeIndex c T) L = Some b" and ne: "\<not> (T = typeKey (tk_type t) \<and> L = tk_lid t)"
      by (auto simp: e split: if_splits)
    from ag old have l: "lids c L = Some b"
      unfolding lidTablesAgree_def by blast
    from lt old obtain tb where tb: "heap c b = Some tb" "tk_lid tb = L" "typeKey (tk_type tb) = T"
      unfolding lidTablesTyped_def by blast
    have "L \<noteq> tk_lid t"
    proof
      assume "L = tk_lid t"
      with l live have "b = a"
        by simp
      with tb h have "T = typeKey (tk_type t)"
        by auto
      with ne \<open>L = tk_lid t\<close> show False
        by simp
    qed
    with l show "lids (snd (forgetResolved rf a c)) L = Some b"
      by (simp add: e)
  qed
  have lv': "idTablesLive (snd (forgetResolved rf a c))"
    unfolding idTablesLive_def
  proof (intro allI impI)
    fix T i b
    assume n: "ko_id (typeIndex (snd (forgetResolved rf a c)) T) i = Some b"
    then have old: "ko_id (typeIndex c T) i = Some b"
      by (auto simp: e split: if_splits option.splits)
    with lv obtain tb where tb: "heap c b = Some tb" "typeKey (tk_type tb) = T" "tk_id tb = Some i"
      "lids c (tk_lid tb) = Some b"
      unfolding idTablesLive_def by blast
    have "tk_lid tb \<noteq> tk_lid t"
    proof
      assume eq: "tk_lid tb = tk_lid t"
      with tb live have "b = a"
        by simp
      with tb h have "T = typeKey (tk_type t)" "tk_id t = Some i"
        by auto
      with n show False
        by (simp add: e)
    qed
    with tb show "\<exists>t'. heap (snd (forgetResolved rf a c)) b = Some t' \<and> typeKey (tk_type t') = T \<and>
                   tk_id t' = Some i \<and> lids (snd (forgetResolved rf a c)) (tk_lid t') = Some b"
      by (simp add: e)
  qed
  from ty' ag' lv' show ?thesis
    by (simp add: tablesAgree_def)
qed

lemma forgetRecordIdentifier_agree:
  assumes inv: "tablesAgree c" and dbg: "DEBUG env"
  shows "tablesAgree (snd (forgetRecordIdentifier env rf c))"
proof -
  obtain r1 c1 where g: "getRecordIdentifier env rf True c = (r1, c1)"
    by force
  have a1: "tablesAgree c1"
    using getRecordIdentifier_agree [OF inv dbg, of rf True] g by simp
  show ?thesis
  proof (cases r1)
    case (Inl x)
    with g a1 show ?thesis
      by (simp add: forgetRecordIdentifier_def getOrCreateRecordIdentifier_def)
  next
    case (Inr o1)
    show ?thesis
    proof (cases o1)
      case None
      with Inr g a1 show ?thesis
        by (simp add: forgetRecordIdentifier_def getOrCreateRecordIdentifier_def)
    next
      case (Some a)
      with Inr g have "getRecordIdentifier env rf True c = (Inr (Some a), c1)"
        by simp
      from getRecordIdentifier_live [OF inv dbg this] obtain t where
        "heap c1 a = Some t" "lids c1 (tk_lid t) = Some a"
        by blast
      with a1 have "tablesAgree (snd (forgetResolved rf a c1))"
        by (rule forgetResolved_agree)
      with Some Inr g show ?thesis
        by (simp add: forgetRecordIdentifier_def getOrCreateRecordIdentifier_def)
    qed
  qed
qed

lemma step_agree:
  assumes "tablesAgree c" "DEBUG env" "\<not> isUpdate x"
  shows "tablesAgree (step env x c)"
  using assms
  by (cases x)
     (simp_all add: getOrCreateRecordIdentifier_def peekRecordIdentifier_def
        getRecordIdentifier_agree createIdentifierForNewRecord_agree
        forgetRecordIdentifier_agree)

lemma newIdentifierCache_agree: "tablesAgree (configureMerge m (newIdentifierCache env g))"
proof -
  have "lidTablesAgree (configureMerge m (newIdentifierCache env g))"
    by (simp add: lidTablesAgree_def configureMerge_def newIdentifierCache_def emptyIndex_def)
  moreover have "idTablesLive (configureMerge m (newIdentifierCache env g))"
    by (simp add: idTablesLive_def configureMerge_def newIdentifierCache_def emptyIndex_def)
  ultimately show ?thesis
    using newIdentifierCache_typed [of m env g] by (simp add: tablesAgree_def)
qed

text \<open>
  A call of \<open>updateRecordIdentifier\<close> forgets an identifier that is live, and writes
  to \<open>id\<close> tables and to the \<open>id\<close> of an identifier: the \<open>lid\<close> tables agree after
  it, whatever it has made of the \<open>id\<close> tables.
\<close>

lemma lidTablesAgree_frame:
  assumes "lidTablesAgree c" "lids c' = lids c"
    and "\<And>T. ko_lid (typeIndex c' T) = ko_lid (typeIndex c T)"
  shows "lidTablesAgree c'"
  using assms by (simp add: lidTablesAgree_def)

lemma keepIdentifier_lids:
  "lids (snd (snd (keepIdentifier T e data newId kept c))) = lids c"
  "ko_lid (typeIndex (snd (snd (keepIdentifier T e data newId kept c))) K) = ko_lid (typeIndex c K)"
  by (auto simp: keepIdentifier_def Let_def split: option.splits)

lemma updateResolved_lids:
  "lids (snd (snd (updateResolved env a data c))) = lids c"
  "ko_lid (typeIndex (snd (snd (updateResolved env a data c))) K) = ko_lid (typeIndex c K)"
  using performRecordIdentifierUpdate_effect [of env a data c]
  by (auto simp: updateResolved_def Let_def split: option.splits prod.splits sum.splits)

lemma detectMerge_agree:
  assumes "tablesAgree c"
  shows "tablesAgree (snd (detectMerge env a data newId c))"
  using assms by (auto simp: detectMerge_def Let_def split: option.splits)

lemma mergeRecordIdentifiers_lidAgree:
  assumes inv: "tablesAgree c" and dbg: "DEBUG env"
  shows "lidTablesAgree (snd (snd (mergeRecordIdentifiers env T a e data newId c)))"
proof -
  define ab where "ab = (if merge c a e data = Some a then e else a)"
  define c1 where "c1 = c\<lparr>mergeLog := mergeLog c @ [(a, e, data)]\<rparr>"
  have "tablesAgree c1"
    using inv by (simp add: c1_def)
  then have "tablesAgree (snd (forgetRecordIdentifier env (Token ab) c1))"
    using dbg by (rule forgetRecordIdentifier_agree)
  then have f: "lidTablesAgree (snd (forgetRecordIdentifier env (Token ab) c1))"
    by (simp add: tablesAgree_def)
  have k: "\<And>c2. lidTablesAgree c2 \<Longrightarrow>
             lidTablesAgree (snd (snd (keepIdentifier T e data newId (merge c a e data) c2)))"
    by (rule lidTablesAgree_frame) (simp_all add: keepIdentifier_lids)
  have "mergeRecordIdentifiers env T a e data newId c =
          (case forgetRecordIdentifier env (Token ab) c1 of
             (Inl x, c2) \<Rightarrow> (Inl x, data, c2)
           | (Inr u, c2) \<Rightarrow> keepIdentifier T e data newId (merge c a e data) c2)"
    by (simp add: mergeRecordIdentifiers_def Let_def ab_def c1_def)
  with f k show ?thesis
    by (auto split: prod.splits sum.splits)
qed

lemma mergeDetected_lidAgree:
  assumes inv: "tablesAgree c" and dbg: "DEBUG env"
  shows "lidTablesAgree (snd (snd (mergeDetected env a data newId detected c)))"
proof -
  have g: "tablesAgree (snd (getOrCreateRecordIdentifier env (Data (data\<lparr>r_lid := Absent\<rparr>)) c))"
    using inv dbg by (simp add: getOrCreateRecordIdentifier_def getRecordIdentifier_agree)
  have m: "\<And>c3 T e. tablesAgree c3 \<Longrightarrow>
      lidTablesAgree (snd (snd (mergeRecordIdentifiers env T a e data newId (getTypeIndex T c3))))"
    using dbg by (simp add: mergeRecordIdentifiers_lidAgree)
  have i: "lidTablesAgree c"
    using inv by (simp add: tablesAgree_def)
  have j: "lidTablesAgree (snd (getOrCreateRecordIdentifier env (Data (data\<lparr>r_lid := Absent\<rparr>)) c))"
    using g by (simp add: tablesAgree_def)
  show ?thesis
    using inv g i j
    by (auto simp: mergeDetected_def m split: option.splits prod.splits sum.splits if_splits)
qed

lemma updateRecordIdentifier_lidAgree:
  assumes inv: "tablesAgree c" and dbg: "DEBUG env"
  shows "lidTablesAgree (snd (snd (updateRecordIdentifier env rf data c)))"
proof -
  obtain r1 c1 where g: "getOrCreateRecordIdentifier env rf c = (r1, c1)"
    by force
  have t1: "tablesAgree c1"
    using getRecordIdentifier_agree [OF inv dbg, of rf True] g
    by (simp add: getOrCreateRecordIdentifier_def)
  then have l1: "lidTablesAgree c1"
    by (simp add: tablesAgree_def)
  show ?thesis
  proof (cases r1)
    case (Inl x)
    with g l1 show ?thesis
      by (simp add: updateRecordIdentifier_def)
  next
    case (Inr o1)
    show ?thesis
    proof (cases o1)
      case None
      with Inr g l1 show ?thesis
        by (simp add: updateRecordIdentifier_def)
    next
      case (Some a)
      define newId where "newId = (if hasKey (r_id data) then coerceId (r_id data) else None)"
      obtain r2 c2 where d: "detectMerge env a data newId c1 = (r2, c2)"
        by force
      have t2: "tablesAgree c2"
        using detectMerge_agree [OF t1, of env a data newId] d by simp
      then have l2: "lidTablesAgree c2"
        by (simp add: tablesAgree_def)
      show ?thesis
      proof (cases r2)
        case (Inl x)
        with Some Inr g d l2 show ?thesis
          by (simp add: updateRecordIdentifier_def newId_def)
      next
        case det: (Inr detected)
        obtain r3 d3 c3 where m: "mergeDetected env a data newId detected c2 = (r3, d3, c3)"
          by (metis prod.collapse)
        have l3: "lidTablesAgree c3"
          using mergeDetected_lidAgree [OF t2 dbg, of a data newId detected] m by simp
        have u: "\<And>k. lidTablesAgree (snd (snd (updateResolved env k d3 c3)))"
          using l3 by (rule lidTablesAgree_frame) (simp_all add: updateResolved_lids)
        show ?thesis
          using Some Inr g d det m l3 u
          by (cases r3) (simp_all add: updateRecordIdentifier_def newId_def)
      qed
    qed
  qed
qed

lemma step_sound:
  assumes inv: "tablesAgree c" and dbg: "DEBUG env"
    and s: "isUpdate x \<longrightarrow> idTablesLive (step env x c)"
  shows "tablesAgree (step env x c)"
proof (cases "isUpdate x")
  case False
  with inv dbg show ?thesis
    by (rule step_agree)
next
  case True
  then obtain rf data where x: "x = Update rf data"
    by (cases x) simp_all
  from inv have "tablesTyped c"
    by (simp add: tablesAgree_def)
  then have "tablesTyped (step env x c)"
    by (rule step_typed)
  moreover have "lidTablesAgree (step env x c)"
    using updateRecordIdentifier_lidAgree [OF inv dbg, of rf data] by (simp add: x)
  moreover have "idTablesLive (step env x c)"
    using s True by simp
  ultimately show ?thesis
    by (simp add: tablesAgree_def)
qed

lemma run_sound:
  assumes "tablesAgree c" "DEBUG env" "soundUpdates env xs c"
  shows "tablesAgree (run env xs c)"
  using assms by (induction xs arbitrary: c) (simp_all add: step_sound)

subsection \<open>The two kinds of \<open>lid\<close> table\<close>


lemma configureMerge_new: "configureMerge None (newIdentifierCache env g) = newIdentifierCache env g"
  by (simp add: configureMerge_def newIdentifierCache_def emptyLogs_def)

lemma updatingCalls_sound:
  "soundUpdates (exampleEnv True) updatingCalls (newCache True)"
  by (auto simp: updatingCalls_def idTablesLive_def run_defs split: if_splits)



section \<open>Resolving the same type and id again\<close>

text \<open>
  Claim C1. \<open>getOrCreateRecordIdentifier\<close> is to return the same object for the same
  type and id for as long as the identifier has not been forgotten; the comment of the
  method says that "this referential stability of the object itself is guaranteed".
  The code does otherwise: the cache has resolved \<open>{type: 'person', id: '5'}\<close> to an
  identifier; a new person record is created without an id and then updated with
  \<open>{id: '5'}\<close>. \<open>detectMerge\<close> looks for a candidate only when the identifier that is
  updated has an id already, so no merge is detected and nothing is forgotten; the
  update enters the new identifier in the \<open>id\<close> table under \<open>5\<close>, in the place of
  the first one. The first identifier is still marked and in the global table, and
  \<open>getOrCreateRecordIdentifier\<close> with \<open>{type: 'person', id: '5'}\<close> now returns the
  second one, in a DEBUG build and in a production build.
\<close>

theorem update_takes_over_resolution:
  "fst (getOrCreateRecordIdentifier (exampleEnv True) (Data (typeAndId ''person'' ''5''))
          (newCache True)) = Inr (Some 0) \<and>
   forgetLog (run (exampleEnv True) savedAsFive (person5Cache True)) = [] \<and>
   0 \<in> marked (run (exampleEnv True) savedAsFive (person5Cache True)) \<and>
   lids (run (exampleEnv True) savedAsFive (person5Cache True)) ''@ember-data:lid-person-5''
     = Some 0 \<and>
   fst (getOrCreateRecordIdentifier (exampleEnv True) (Data (typeAndId ''person'' ''5''))
          (run (exampleEnv True) savedAsFive (person5Cache True))) = Inr (Some 1) \<and>
   fst (getOrCreateRecordIdentifier (exampleEnv False) (Data (typeAndId ''person'' ''5''))
          (newCache False)) = Inr (Some 0) \<and>
   forgetLog (run (exampleEnv False) savedAsFive (person5Cache False)) = [] \<and>
   fst (getOrCreateRecordIdentifier (exampleEnv False) (Data (typeAndId ''person'' ''5''))
          (run (exampleEnv False) savedAsFive (person5Cache False))) = Inr (Some 1)"
  by (simp add: savedAsFive_def person5Cache_def run_defs)

end
